theory Spec2Isabelle
  imports Complex_Main "HOL-Library.Multiset"
begin

section \<open>Numbers and arrays\<close>

text \<open>
  \<^verbatim>\<open>rpc_utils.py\<close> computes on numpy arrays of IEEE doubles. Where the source can
  itself produce or inspect a special value (the division of \<^verbatim>\<open>compute_height\<close>, the
  means and the division of the normalisations, the mean of the polygon in
  \<^verbatim>\<open>roi_process\<close>, the \<^verbatim>\<open>nan\<close> written over the no-data sentinel in
  \<^verbatim>\<open>min_max_heights_from_bbx\<close>), a double is a value of the type \<open>fl\<close>: a finite number,
  one of the two infinities, or NaN. Finite arithmetic is exact (rounding and overflow are
  not modelled, and zero has no sign); the special values follow IEEE 754. The point mesh
  and the disparity range make no special value of finite numbers, and their numbers are
  reals.

  An exception of the source is a value: a function that can raise returns a sum, with the
  exception on the left.
\<close>

datatype fl = Fin real | PInf | NInf | NaN

datatype error = ValueError | OverflowError | IndexError

fun fneg :: "fl \<Rightarrow> fl" where
  "fneg (Fin a) = Fin (- a)"
| "fneg PInf = NInf"
| "fneg NInf = PInf"
| "fneg NaN = NaN"

fun fadd :: "fl \<Rightarrow> fl \<Rightarrow> fl" where
  "fadd NaN y = NaN"
| "fadd x NaN = NaN"
| "fadd (Fin a) (Fin b) = Fin (a + b)"
| "fadd PInf NInf = NaN"
| "fadd NInf PInf = NaN"
| "fadd PInf y = PInf"
| "fadd x PInf = PInf"
| "fadd NInf y = NInf"
| "fadd x NInf = NInf"

definition fsub :: "fl \<Rightarrow> fl \<Rightarrow> fl" where
  "fsub x y = fadd x (fneg y)"

text \<open>The sign of a double as the source's products and quotients see it.\<close>

fun fsign :: "fl \<Rightarrow> int" where
  "fsign (Fin a) = (if a < 0 then - 1 else if a = 0 then 0 else 1)"
| "fsign PInf = 1"
| "fsign NInf = - 1"
| "fsign NaN = 0"

definition inf_of :: "int \<Rightarrow> fl" where
  "inf_of s = (if s = 0 then NaN else if s < 0 then NInf else PInf)"

fun fmul :: "fl \<Rightarrow> fl \<Rightarrow> fl" where
  "fmul NaN y = NaN"
| "fmul x NaN = NaN"
| "fmul (Fin a) (Fin b) = Fin (a * b)"
| "fmul x y = inf_of (fsign x * fsign y)"

text \<open>
  \<^verbatim>\<open>np.divide\<close> raises nothing: a finite nonzero number over zero is an infinity, and
  \<open>0 / 0\<close> and \<open>inf / inf\<close> are NaN.
\<close>

fun fdiv :: "fl \<Rightarrow> fl \<Rightarrow> fl" where
  "fdiv NaN y = NaN"
| "fdiv x NaN = NaN"
| "fdiv (Fin a) (Fin b) = (if b = 0 then inf_of (fsign (Fin a)) else Fin (a / b))"
| "fdiv (Fin a) y = Fin 0"
| "fdiv x (Fin b) = (if b < 0 then fneg x else x)"
| "fdiv x y = NaN"

fun fsqrt :: "fl \<Rightarrow> fl" where
  "fsqrt (Fin a) = (if a < 0 then NaN else Fin (sqrt a))"
| "fsqrt PInf = PInf"
| "fsqrt NInf = NaN"
| "fsqrt NaN = NaN"

fun fabs :: "fl \<Rightarrow> fl" where
  "fabs (Fin a) = Fin \<bar>a\<bar>"
| "fabs PInf = PInf"
| "fabs NInf = PInf"
| "fabs NaN = NaN"

text \<open>The comparison \<^verbatim>\<open><\<close> of doubles: false as soon as one side is NaN.\<close>

fun flt :: "fl \<Rightarrow> fl \<Rightarrow> bool" where
  "flt NaN y = False"
| "flt x NaN = False"
| "flt (Fin a) (Fin b) = (a < b)"
| "flt NInf NInf = False"
| "flt NInf y = True"
| "flt x NInf = False"
| "flt PInf y = False"
| "flt x PInf = True"

text \<open>\<^verbatim>\<open>np.maximum\<close> and \<^verbatim>\<open>np.max\<close> propagate NaN; \<^verbatim>\<open>np.max\<close> of an empty array raises
  \<^verbatim>\<open>ValueError\<close> (the reduction has no identity).\<close>

fun fmax2 :: "fl \<Rightarrow> fl \<Rightarrow> fl" where
  "fmax2 NaN y = NaN"
| "fmax2 x NaN = NaN"
| "fmax2 x y = (if flt x y then y else x)"

definition np_max :: "fl list \<Rightarrow> error + fl" where
  "np_max xs = (case xs of [] \<Rightarrow> Inl ValueError | x # r \<Rightarrow> Inr (foldl fmax2 x r))"

text \<open>The sum of the products of two rows, as one entry of \<^verbatim>\<open>np.dot\<close> computes it.\<close>

definition fsum :: "fl list \<Rightarrow> fl" where
  "fsum xs = foldl fadd (Fin 0) xs"

definition zeros :: "nat \<Rightarrow> fl list" where
  "zeros n = replicate n (Fin 0)"

text \<open>A two-column array (\<^verbatim>\<open>np.vstack([u, v]).T\<close>) is the list of its rows.\<close>

type_synonym vec2 = "fl \<times> fl"

definition vstackT :: "'a list \<Rightarrow> 'a list \<Rightarrow> ('a \<times> 'a) list" where
  "vstackT u v = zip u v"

definition vadd :: "vec2 \<Rightarrow> vec2 \<Rightarrow> vec2" where
  "vadd p q = (fadd (fst p) (fst q), fadd (snd p) (snd q))"

definition vsub :: "vec2 \<Rightarrow> vec2 \<Rightarrow> vec2" where
  "vsub p q = (fsub (fst p) (fst q), fsub (snd p) (snd q))"

text \<open>\<^verbatim>\<open>np.diag(h)\<close> of a vector, as the list of its rows, and the matrix product
  \<^verbatim>\<open>np.dot(m, a)\<close> of a square matrix with a two-column array.\<close>

definition np_diag :: "fl list \<Rightarrow> fl list list" where
  "np_diag h = map (\<lambda>i. (zeros (length h))[i := h ! i]) [0..<length h]"

definition np_dot :: "fl list list \<Rightarrow> vec2 list \<Rightarrow> vec2 list" where
  "np_dot m a =
     map (\<lambda>row. (fsum (map2 fmul row (map fst a)), fsum (map2 fmul row (map snd a)))) m"

section \<open>Camera models\<close>

text \<open>
  The camera model (\<^verbatim>\<open>rpcm.RPCModel\<close> or a projective model) is an external collaborator:
  a localisation and a projection that act on each point of a batch on its own, and the
  two altitude attributes. The type of its numbers is a parameter.
\<close>

record 'a camera =
  localization :: "'a \<Rightarrow> 'a \<Rightarrow> 'a \<Rightarrow> 'a \<times> 'a"
  projection :: "'a \<Rightarrow> 'a \<Rightarrow> 'a \<Rightarrow> 'a \<times> 'a"
  alt_offset :: 'a
  alt_scale :: 'a

text \<open>A call on three arrays of one length applies the function to each point.\<close>

definition vec3 :: "('a \<Rightarrow> 'a \<Rightarrow> 'a \<Rightarrow> 'a \<times> 'a) \<Rightarrow> 'a list \<Rightarrow> 'a list \<Rightarrow> 'a list
    \<Rightarrow> 'a list \<times> 'a list" where
  "vec3 f xs ys zs =
     (let ps = map (\<lambda>(x, y, z). f x y z) (zip xs (zip ys zs)) in (map fst ps, map snd ps))"

definition find_corresponding_point ::
    "'a camera \<Rightarrow> 'a camera \<Rightarrow> 'a list \<Rightarrow> 'a list \<Rightarrow> 'a list \<Rightarrow> 'a list \<times> 'a list \<times> 'a list" where
  "find_corresponding_point model_a model_b x y z =
     (let (t1, t2) = vec3 (localization model_a) x y z;
          (xp, yp) = vec3 (projection model_b) t1 t2 z
      in (xp, yp, z))"

section \<open>Height triangulation: \<^verbatim>\<open>compute_height\<close>\<close>

text \<open>The reprojection \<open>r0\<close> of the batch at heights \<open>h\<close>, and the displacement
  \<open>a = r1 - r0\<close> of a probe of \<^verbatim>\<open>HSTEP = 1\<close> metre, as the loop body computes them.\<close>

definition HSTEP :: fl where
  "HSTEP = Fin 1"

definition reproject :: "fl camera \<Rightarrow> fl camera \<Rightarrow> fl list \<Rightarrow> fl list \<Rightarrow> fl list \<Rightarrow> vec2 list" where
  "reproject model_a model_b x1 y1 h =
     (let (tx, ty, tz) = find_corresponding_point model_a model_b x1 y1 h in vstackT tx ty)"

definition probe :: "fl camera \<Rightarrow> fl camera \<Rightarrow> fl list \<Rightarrow> fl list \<Rightarrow> fl list \<Rightarrow> vec2 list" where
  "probe model_a model_b x1 y1 h0 =
     (let r0 = reproject model_a model_b x1 y1 h0;
          r1 = reproject model_a model_b x1 y1 (map (\<lambda>h. fadd h HSTEP) h0)
      in map2 vsub r1 r0)"

definition dot2 :: "vec2 \<Rightarrow> vec2 \<Rightarrow> fl" where
  "dot2 u v = fadd (fmul (fst u) (fst v)) (fmul (snd u) (snd v))"

text \<open>One pass through the body of the loop, from the heights \<open>h0\<close>: the new heights, the
  residuals \<open>err\<close> and the increments \<open>h0_inc\<close>.\<close>

definition height_iteration ::
    "fl camera \<Rightarrow> fl camera \<Rightarrow> fl list \<Rightarrow> fl list \<Rightarrow> vec2 list \<Rightarrow> fl list
      \<Rightarrow> fl list \<times> fl list \<times> fl list" where
  "height_iteration model_a model_b x1 y1 p2 h0 =
     (let r0 = reproject model_a model_b x1 y1 h0;
          a = probe model_a model_b x1 y1 h0;
          b = map2 vsub p2 r0;
          diagabdot = map2 dot2 a b;
          diagaadot = map2 dot2 a a;
          h0_inc = map2 fdiv diagabdot diagaadot;
          q = map2 vadd r0 (np_dot (np_diag h0_inc) a);
          tmp = map2 vsub q p2;
          err = map (\<lambda>t. fsqrt (dot2 t t)) tmp;
          h0' = map2 fadd h0 (map (\<lambda>i. fmul i HSTEP) h0_inc)
      in (h0', err, h0_inc))"

text \<open>The test that leaves the loop: \<^verbatim>\<open>np.max(np.fabs(h0_inc)) < 0.001\<close>.\<close>

definition threshold_met :: "fl list \<Rightarrow> error + bool" where
  "threshold_met h0_inc =
     (case np_max (map fabs h0_inc) of Inl e \<Rightarrow> Inl e | Inr m \<Rightarrow> Inr (flt m (Fin 0.001)))"

text \<open>The loop \<^verbatim>\<open>for i in range(100)\<close>, by the number of passes left.\<close>

fun compute_height_loop ::
    "nat \<Rightarrow> fl camera \<Rightarrow> fl camera \<Rightarrow> fl list \<Rightarrow> fl list \<Rightarrow> vec2 list \<Rightarrow> fl list \<Rightarrow> fl list
      \<Rightarrow> error + (fl list \<times> fl list)" where
  "compute_height_loop 0 model_a model_b x1 y1 p2 h0 err = Inr (h0, err)"
| "compute_height_loop (Suc k) model_a model_b x1 y1 p2 h0 err =
     (case height_iteration model_a model_b x1 y1 p2 h0 of (h0', err', h0_inc) \<Rightarrow>
        (case threshold_met h0_inc of
           Inl e \<Rightarrow> Inl e
         | Inr stop \<Rightarrow>
             if stop then Inr (h0', err')
             else compute_height_loop k model_a model_b x1 y1 p2 h0' err'))"

definition compute_height ::
    "fl camera \<Rightarrow> fl camera \<Rightarrow> fl list \<Rightarrow> fl list \<Rightarrow> fl list \<Rightarrow> fl list
      \<Rightarrow> error + (fl list \<times> fl list)" where
  "compute_height model_a model_b x1 y1 x2 y2 =
     (let n = length x1;
          h0 = zeros n;
          p2 = vstackT x2 y2;
          err = zeros n
      in compute_height_loop 100 model_a model_b x1 y1 p2 h0 err)"

text \<open>The three results of a pass, one by one.\<close>

definition new_heights ::
    "fl camera \<Rightarrow> fl camera \<Rightarrow> fl list \<Rightarrow> fl list \<Rightarrow> vec2 list \<Rightarrow> fl list \<Rightarrow> fl list" where
  "new_heights model_a model_b x1 y1 p2 h0 = fst (height_iteration model_a model_b x1 y1 p2 h0)"

definition residuals ::
    "fl camera \<Rightarrow> fl camera \<Rightarrow> fl list \<Rightarrow> fl list \<Rightarrow> vec2 list \<Rightarrow> fl list \<Rightarrow> fl list" where
  "residuals model_a model_b x1 y1 p2 h0 =
     fst (snd (height_iteration model_a model_b x1 y1 p2 h0))"

definition increments ::
    "fl camera \<Rightarrow> fl camera \<Rightarrow> fl list \<Rightarrow> fl list \<Rightarrow> vec2 list \<Rightarrow> fl list \<Rightarrow> fl list" where
  "increments model_a model_b x1 y1 p2 h0 =
     snd (snd (height_iteration model_a model_b x1 y1 p2 h0))"

text \<open>The trace of the loop: the heights at the start of each pass it makes, in order.
  It follows the loop of \<open>compute_height_loop\<close> branch by branch.\<close>

fun passes ::
    "nat \<Rightarrow> fl camera \<Rightarrow> fl camera \<Rightarrow> fl list \<Rightarrow> fl list \<Rightarrow> vec2 list \<Rightarrow> fl list
      \<Rightarrow> fl list list" where
  "passes 0 model_a model_b x1 y1 p2 h0 = []"
| "passes (Suc k) model_a model_b x1 y1 p2 h0 =
     h0 # (case height_iteration model_a model_b x1 y1 p2 h0 of (h0', err', h0_inc) \<Rightarrow>
        (case threshold_met h0_inc of
           Inl e \<Rightarrow> []
         | Inr stop \<Rightarrow>
             if stop then [] else passes k model_a model_b x1 y1 p2 h0'))"

text \<open>Whether a double is a finite number.\<close>

fun is_finite :: "fl \<Rightarrow> bool" where
  "is_finite (Fin a) = True"
| "is_finite x = False"

text \<open>The residual as the specification words it: the distance from the reprojection of
  \<open>(x1, y1, h)\<close> in the second image to the observed point, for each point of the batch.\<close>

definition reprojection_error ::
    "fl camera \<Rightarrow> fl camera \<Rightarrow> fl list \<Rightarrow> fl list \<Rightarrow> vec2 list \<Rightarrow> fl list \<Rightarrow> fl list" where
  "reprojection_error model_a model_b x1 y1 p2 h =
     map2 (\<lambda>r p. fsqrt (dot2 (vsub r p) (vsub r p))) (reproject model_a model_b x1 y1 h) p2"

text \<open>The point \<open>q = r0 + h_inc * a\<close> that the comment in the loop names: the reprojection
  at the old height, moved along the probe displacement.\<close>

definition extrapolation :: "vec2 \<Rightarrow> fl \<Rightarrow> vec2 \<Rightarrow> vec2" where
  "extrapolation r0 h_inc a = vadd r0 (fmul h_inc (fst a), fmul h_inc (snd a))"

subsection \<open>Example camera models\<close>

text \<open>Three small camera models: the reprojection moves by one pixel per metre,
  by the square of the altitude, and not at all.\<close>

definition linear_camera :: "fl camera" where
  "linear_camera = \<lparr>localization = (\<lambda>x y z. (x, y)),
     projection = (\<lambda>lon lat z. (fadd lon z, lat)), alt_offset = Fin 0, alt_scale = Fin 1\<rparr>"

definition quadratic_camera :: "fl camera" where
  "quadratic_camera = \<lparr>localization = (\<lambda>x y z. (x, y)),
     projection = (\<lambda>lon lat z. (fadd lon (fmul z z), lat)),
     alt_offset = Fin 0, alt_scale = Fin 1\<rparr>"

definition flat_camera :: "fl camera" where
  "flat_camera = \<lparr>localization = (\<lambda>x y z. (x, y)),
     projection = (\<lambda>lon lat z. (lon, lat)), alt_offset = Fin 0, alt_scale = Fin 1\<rparr>"

section \<open>Altitude range: \<^verbatim>\<open>altitude_range\<close>\<close>

text \<open>Sequencing: an exception of the first step is the exception of the whole.\<close>

definition ebind :: "error + 'a \<Rightarrow> ('a \<Rightarrow> error + 'b) \<Rightarrow> error + 'b" where
  "ebind r f = (case r of Inl e \<Rightarrow> Inl e | Inr v \<Rightarrow> f v)"

text \<open>\<^verbatim>\<open>np.minimum\<close> and \<^verbatim>\<open>np.min\<close>, as \<open>fmax2\<close> and \<open>np_max\<close> above.\<close>

fun fmin2 :: "fl \<Rightarrow> fl \<Rightarrow> fl" where
  "fmin2 NaN y = NaN"
| "fmin2 x NaN = NaN"
| "fmin2 x y = (if flt y x then y else x)"

definition np_min :: "fl list \<Rightarrow> error + fl" where
  "np_min xs = (case xs of [] \<Rightarrow> Inl ValueError | x # r \<Rightarrow> Inr (foldl fmin2 x r))"

text \<open>\<^verbatim>\<open>np.nanmin\<close> and \<^verbatim>\<open>np.nanmax\<close> leave the NaN entries out; an array of NaN only gives
  NaN (with a warning), and an empty array raises.\<close>

definition np_nanmin :: "fl list \<Rightarrow> error + fl" where
  "np_nanmin xs =
     (if xs = [] then Inl ValueError
      else case filter (\<lambda>v. v \<noteq> NaN) xs of [] \<Rightarrow> Inr NaN | y # r \<Rightarrow> Inr (foldl fmin2 y r))"

definition np_nanmax :: "fl list \<Rightarrow> error + fl" where
  "np_nanmax xs =
     (if xs = [] then Inl ValueError
      else case filter (\<lambda>v. v \<noteq> NaN) xs of [] \<Rightarrow> Inr NaN | y # r \<Rightarrow> Inr (foldl fmax2 y r))"

text \<open>Python's \<^verbatim>\<open>int\<close> of a double truncates towards zero, and raises on NaN and on the
  infinities.\<close>

fun py_int :: "fl \<Rightarrow> error + int" where
  "py_int (Fin a) = Inr (if 0 \<le> a then \<lfloor>a\<rfloor> else \<lceil>a\<rceil>)"
| "py_int NaN = Inl ValueError"
| "py_int x = Inl OverflowError"

definition np_clip :: "int \<Rightarrow> int \<Rightarrow> int \<Rightarrow> int" where
  "np_clip v lo hi = min (max v lo) hi"

text \<open>
  The configuration \<^verbatim>\<open>cfg\<close> of \<^verbatim>\<open>s2p.config\<close> is a dictionary shared by the whole process.
  The record has the five keys this module reads or writes; every other key is in the
  extension of the record.
\<close>

record cfg =
  exogenous_dem :: "string option"
  exogenous_dem_geoid_mode :: bool
  rpc_alt_range_scale_factor :: fl
  utm_zone :: "string option"
  utm_bbx :: "(fl \<times> fl \<times> fl \<times> fl) option"

text \<open>
  The elevation raster is external (\<^verbatim>\<open>rasterio\<close>, \<^verbatim>\<open>pyproj\<close>): the projection of a
  longitude and latitude into the raster's reference system, the inverse of its affine
  transform, its shape \<open>(sizey, sizex)\<close>, and the read of band 1 in a window
  \<open>((y0, y0 + h), (x0, x0 + w))\<close> as an array of doubles.
\<close>

record dataset =
  to_crs :: "fl \<Rightarrow> fl \<Rightarrow> fl \<times> fl"
  inv_transform :: "fl \<times> fl \<Rightarrow> fl \<times> fl"
  shape :: "int \<times> int"
  read_band :: "(int \<times> int) \<times> (int \<times> int) \<Rightarrow> fl list"

record world =
  open_dataset :: "string \<Rightarrow> dataset"
  geoid_above_ellipsoid :: "fl \<Rightarrow> fl \<Rightarrow> fl"

text \<open>The eight vertices of the region at the two coarse altitudes are localised, and the
  extrema of their longitudes and latitudes returned.\<close>

definition geodesic_bounding_box ::
    "fl camera \<Rightarrow> int \<Rightarrow> int \<Rightarrow> int \<Rightarrow> int \<Rightarrow> error + (fl \<times> fl \<times> fl \<times> fl)" where
  "geodesic_bounding_box rpc x y w h =
     (let m = fsub (alt_offset rpc) (alt_scale rpc);
          M = fadd (alt_offset rpc) (alt_scale rpc);
          xs = map (\<lambda>v. Fin (of_int v)) [x, x, x, x, x + w, x + w, x + w, x + w];
          ys = map (\<lambda>v. Fin (of_int v)) [y, y, y + h, y + h, y, y, y + h, y + h];
          a = [m, M, m, M, m, M, m, M];
          (lon, lat) = vec3 (localization rpc) xs ys a
      in ebind (np_min lon) (\<lambda>lon_m. ebind (np_max lon) (\<lambda>lon_M.
         ebind (np_min lat) (\<lambda>lat_m. ebind (np_max lat) (\<lambda>lat_M.
           Inr (lon_m, lon_M, lat_m, lat_M))))))"

definition altitude_range_coarse :: "fl camera \<Rightarrow> fl \<Rightarrow> fl \<times> fl" where
  "altitude_range_coarse rpc scale_factor =
     (let m = fsub (alt_offset rpc) (fmul scale_factor (alt_scale rpc));
          M = fadd (alt_offset rpc) (fmul scale_factor (alt_scale rpc))
      in (m, M))"

text \<open>The window of the raster that \<^verbatim>\<open>min_max_heights_from_bbx\<close> reads, clipped to the
  raster: \<open>(x0, y0, w, h)\<close>.\<close>

definition access_window ::
    "dataset \<Rightarrow> fl \<Rightarrow> fl \<Rightarrow> fl \<Rightarrow> fl \<Rightarrow> error + (int \<times> int \<times> int \<times> int)" where
  "access_window ds lon_m lon_M lat_m lat_M =
     (let pts = [inv_transform ds (to_crs ds lon_m lat_m), inv_transform ds (to_crs ds lon_M lat_M)];
          px = map fst pts;
          py = map snd pts
      in ebind (np_min px) (\<lambda>a. ebind (py_int a) (\<lambda>px_min.
         ebind (np_max px) (\<lambda>a. ebind (py_int (fadd a (Fin 1))) (\<lambda>px_max.
         ebind (np_min py) (\<lambda>a. ebind (py_int a) (\<lambda>py_min.
         ebind (np_max py) (\<lambda>a. ebind (py_int (fadd a (Fin 1))) (\<lambda>py_max.
           let x = px_min; y = py_min;
               w = px_max - px_min + 1; h = py_max - py_min + 1;
               (sizey, sizex) = shape ds;
               x0 = np_clip x 0 (sizex - 1);
               y0 = np_clip y 0 (sizey - 1);
               w = w - (x0 - x);
               h = h - (y0 - y);
               w = np_clip w 0 (sizex - 1 - x0);
               h = np_clip h 0 (sizey - 1 - y0)
           in Inr (x0, y0, w, h))))))))))"

text \<open>The heights of the raster in the window, the no-data sentinel \<open>-32768\<close> left out; the
  coarse range of the camera model when the window is empty.\<close>

definition min_max_heights_from_bbx ::
    "world \<Rightarrow> 'z cfg_scheme \<Rightarrow> string \<Rightarrow> fl \<Rightarrow> fl \<Rightarrow> fl \<Rightarrow> fl \<Rightarrow> fl camera \<Rightarrow> error + (fl \<times> fl)" where
  "min_max_heights_from_bbx wd cfg im lon_m lon_M lat_m lat_M rpc =
     (let dataset = open_dataset wd im
      in ebind (access_window dataset lon_m lon_M lat_m lat_M) (\<lambda>(x0, y0, w, h).
           if w \<noteq> 0 \<and> h \<noteq> 0 then
             (let array = read_band dataset ((y0, y0 + h), (x0, x0 + w));
                  array = map (\<lambda>v. if v = Fin (- 32768) then NaN else v) array
              in ebind (np_nanmin array) (\<lambda>hmin. ebind (np_nanmax array) (\<lambda>hmax.
                   if exogenous_dem_geoid_mode cfg then
                     (let geoid = geoid_above_ellipsoid wd
                            (fdiv (fadd lat_m lat_M) (Fin 2)) (fdiv (fadd lon_m lon_M) (Fin 2))
                      in Inr (fadd hmin geoid, fadd hmax geoid))
                   else Inr (hmin, hmax))))
           else Inr (altitude_range_coarse rpc (rpc_alt_range_scale_factor cfg))))"

text \<open>The margins are added in the branch of the configured elevation model only.\<close>

definition altitude_range ::
    "world \<Rightarrow> 'z cfg_scheme \<Rightarrow> fl camera \<Rightarrow> int \<Rightarrow> int \<Rightarrow> int \<Rightarrow> int \<Rightarrow> fl \<Rightarrow> fl
      \<Rightarrow> error + (fl \<times> fl)" where
  "altitude_range wd cfg rpc x y w h margin_top margin_bottom =
     ebind (geodesic_bounding_box rpc x y w h) (\<lambda>(lon_m, lon_M, lat_m, lat_M).
       case exogenous_dem cfg of
         Some dem \<Rightarrow>
           ebind (min_max_heights_from_bbx wd cfg dem lon_m lon_M lat_m lat_M rpc)
             (\<lambda>(h_m, h_M). Inr (fadd h_m margin_bottom, fadd h_M margin_top))
       | None \<Rightarrow> Inr (altitude_range_coarse rpc (rpc_alt_range_scale_factor cfg)))"

subsection \<open>Example configuration and rasters\<close>

definition example_dataset :: "int \<times> int \<Rightarrow> dataset" where
  "example_dataset sh = \<lparr>to_crs = (\<lambda>lon lat. (lon, lat)), inv_transform = (\<lambda>p. p), shape = sh,
     read_band = (\<lambda>win. [Fin 5, Fin (- 32768), Fin 7])\<rparr>"

definition example_world :: "int \<times> int \<Rightarrow> world" where
  "example_world sh = \<lparr>open_dataset = (\<lambda>path. example_dataset sh),
     geoid_above_ellipsoid = (\<lambda>lat lon. Fin 0)\<rparr>"

text \<open>A raster whose window holds the no-data sentinel only.\<close>

definition nodata_world :: world where
  "nodata_world =
     \<lparr>open_dataset = (\<lambda>path. \<lparr>to_crs = (\<lambda>lon lat. (lon, lat)), inv_transform = (\<lambda>p. p),
          shape = (10, 10), read_band = (\<lambda>win. [Fin (- 32768), Fin (- 32768)])\<rparr>),
      geoid_above_ellipsoid = (\<lambda>lat lon. Fin 0)\<rparr>"

definition example_cfg :: "string option \<Rightarrow> cfg" where
  "example_cfg dem = \<lparr>exogenous_dem = dem, exogenous_dem_geoid_mode = False,
     rpc_alt_range_scale_factor = Fin 1, utm_zone = None, utm_bbx = None\<rparr>"

section \<open>Disparity range: \<^verbatim>\<open>altitude_range_to_disp_range\<close>\<close>

text \<open>
  \<^verbatim>\<open>alt_to_disp\<close> and \<^verbatim>\<open>altitude_range_to_disp_range\<close> only subtract coordinates and take a
  minimum and a maximum. Their numbers are reals: the collaborators (the camera models and
  the homographies) are taken to return finite numbers, and these operations make no
  special value of finite ones.

  \<^verbatim>\<open>np.min\<close> and \<^verbatim>\<open>np.max\<close> of an array of such numbers; both raise on an empty array.
\<close>

definition array_min :: "'a::linorder list \<Rightarrow> error + 'a" where
  "array_min xs = (case xs of [] \<Rightarrow> Inl ValueError | x # r \<Rightarrow> Inr (foldl min x r))"

definition array_max :: "'a::linorder list \<Rightarrow> error + 'a" where
  "array_max xs = (case xs of [] \<Rightarrow> Inl ValueError | x # r \<Rightarrow> Inr (foldl max x r))"

text \<open>
  The homographies are matrices of a type \<open>'m\<close> that belongs to the collaborators:
  \<^verbatim>\<open>common.points_apply_homography\<close> applies one to each point of an array, and
  \<^verbatim>\<open>np.linalg.inv\<close> inverts one (a homography is invertible).
\<close>

record 'm homographies =
  points_apply_homography :: "'m \<Rightarrow> real \<times> real \<Rightarrow> real \<times> real"
  linalg_inv :: "'m \<Rightarrow> 'm"

definition alt_to_disp ::
    "'m homographies \<Rightarrow> real camera \<Rightarrow> real camera \<Rightarrow> real list \<Rightarrow> real list \<Rightarrow> real list
      \<Rightarrow> 'm \<Rightarrow> 'm \<Rightarrow> 'm option \<Rightarrow> real list" where
  "alt_to_disp lib rpc1 rpc2 x y alt H1 H2 A =
     (let (xx, yy, zz) = find_corresponding_point rpc1 rpc2 x y alt;
          p1 = vstackT x y;
          p2 = vstackT xx yy;
          p2 = (case A of
                  None \<Rightarrow> p2
                | Some A' \<Rightarrow> map (points_apply_homography lib (linalg_inv lib A')) p2);
          p1 = map (points_apply_homography lib H1) p1;
          p2 = map (points_apply_homography lib H2) p2;
          disp = map2 (\<lambda>q p. fst q - fst p) p2 p1
      in disp)"

definition altitude_range_to_disp_range ::
    "'m homographies \<Rightarrow> real \<Rightarrow> real \<Rightarrow> real camera \<Rightarrow> real camera \<Rightarrow> int \<Rightarrow> int \<Rightarrow> int \<Rightarrow> int
      \<Rightarrow> 'm \<Rightarrow> 'm \<Rightarrow> 'm option \<Rightarrow> real \<Rightarrow> real \<Rightarrow> error + (real \<times> real)" where
  "altitude_range_to_disp_range lib m M rpc1 rpc2 x y w h H1 H2 A margin_top margin_bottom =
     (let a = map of_int [x, x, x, x, x + w, x + w, x + w, x + w];
          b = map of_int [y, y, y + h, y + h, y, y, y + h, y + h];
          c = [m, M, m, M, m, M, m, M];
          d = alt_to_disp lib rpc1 rpc2 a b c H1 H2 A
      in ebind (array_min d) (\<lambda>lo. ebind (array_max d) (\<lambda>hi. Inr (lo, hi))))"

text \<open>The disparity of one corner of the region at one altitude.\<close>

definition corner_disparity ::
    "'m homographies \<Rightarrow> real camera \<Rightarrow> real camera \<Rightarrow> 'm \<Rightarrow> 'm \<Rightarrow> 'm option
      \<Rightarrow> int \<Rightarrow> int \<Rightarrow> real \<Rightarrow> real list" where
  "corner_disparity lib rpc1 rpc2 H1 H2 A cx cy alt =
     alt_to_disp lib rpc1 rpc2 [of_int cx] [of_int cy] [alt] H1 H2 A"

subsection \<open>Example homographies\<close>

text \<open>Translations along the first axis, named by their offset.\<close>

definition shifts :: "real homographies" where
  "shifts = \<lparr>points_apply_homography = (\<lambda>t p. (fst p + t, snd p)), linalg_inv = (\<lambda>t. - t)\<rparr>"

definition real_camera :: "real camera" where
  "real_camera = \<lparr>localization = (\<lambda>x y z. (x, y)),
     projection = (\<lambda>lon lat z. (lon + z, lat)), alt_offset = 0, alt_scale = 1\<rparr>"

section \<open>Point mesh: \<^verbatim>\<open>generate_point_mesh\<close>\<close>

text \<open>
  Modelled from the spec: \<^verbatim>\<open>np.linspace(start, stop, num)\<close> is numpy's, not this
  repository's. Its values are linearly spaced and include both endpoints; one sample is
  \<open>start\<close> alone, no sample is the empty array, and a negative number of samples raises
  \<^verbatim>\<open>ValueError\<close>. As numpy does, the samples are \<open>start + i * step\<close> with
  \<open>step = (stop - start) / (num - 1)\<close>, and the last one is then set to \<open>stop\<close>. The numbers
  of the mesh are reals.
\<close>

definition linspace :: "real \<Rightarrow> real \<Rightarrow> int \<Rightarrow> error + real list" where
  "linspace start stop num =
     (if num < 0 then Inl ValueError
      else if num = 0 then Inr []
      else if num = 1 then Inr [start]
      else let n = nat num;
               step = (stop - start) / real_of_int (num - 1)
           in Inr ((map (\<lambda>i. start + real i * step) [0..<n])[n - 1 := stop]))"

text \<open>
  The three sums broadcast the one-dimensional \<open>cols\<close> against \<open>rows\<close> as a column and
  \<open>alts\<close> as a stack: the result has the shape \<open>(n_alt, n_row, n_col)\<close>, and
  \<^verbatim>\<open>reshape(-1)\<close> reads it row by row, the columns running fastest.
\<close>

definition broadcast3 :: "(real \<Rightarrow> real \<Rightarrow> real \<Rightarrow> real) \<Rightarrow> real list \<Rightarrow> real list \<Rightarrow> real list
    \<Rightarrow> real list" where
  "broadcast3 f cols rows alts =
     concat (map (\<lambda>a. concat (map (\<lambda>r. map (\<lambda>c. f c r a) cols) rows)) alts)"

definition generate_point_mesh ::
    "real \<times> real \<times> int \<Rightarrow> real \<times> real \<times> int \<Rightarrow> real \<times> real \<times> int
      \<Rightarrow> error + (real list \<times> real list \<times> real list)" where
  "generate_point_mesh col_range row_range alt_range =
     ebind (case col_range of (v0, v1, v2) \<Rightarrow> linspace v0 v1 v2) (\<lambda>cols.
     ebind (case row_range of (v0, v1, v2) \<Rightarrow> linspace v0 v1 v2) (\<lambda>rows.
     ebind (case alt_range of (v0, v1, v2) \<Rightarrow> linspace v0 v1 v2) (\<lambda>alts.
       Inr (broadcast3 (\<lambda>c r a. c + 0 * r + 0 * a) cols rows alts,
            broadcast3 (\<lambda>c r a. 0 * c + r + 0 * a) cols rows alts,
            broadcast3 (\<lambda>c r a. 0 * c + 0 * r + a) cols rows alts))))"

text \<open>What the specification asks of one spacing: \<open>n\<close> values, the single value \<open>lo\<close> when
  \<open>n = 1\<close>, and otherwise both endpoints with equal steps between them.\<close>

definition linear_spacing :: "real \<Rightarrow> real \<Rightarrow> int \<Rightarrow> real list \<Rightarrow> bool" where
  "linear_spacing lo hi n xs \<longleftrightarrow>
     length xs = nat n
     \<and> (n = 1 \<longrightarrow> xs = [lo])
     \<and> (1 < n \<longrightarrow> hd xs = lo \<and> last xs = hi
          \<and> (\<forall>i < length xs. xs ! i = lo + real i * ((hi - lo) / real_of_int (n - 1))))"

section \<open>Region of interest: \<^verbatim>\<open>roi_process\<close>\<close>

text \<open>Python's \<^verbatim>\<open>min\<close> and \<^verbatim>\<open>max\<close> of a sequence keep the first element until a later one
  compares smaller (larger); both raise \<^verbatim>\<open>ValueError\<close> on an empty sequence.\<close>

definition py_min :: "fl list \<Rightarrow> error + fl" where
  "py_min xs =
     (case xs of [] \<Rightarrow> Inl ValueError
      | x # r \<Rightarrow> Inr (foldl (\<lambda>m v. if flt v m then v else m) x r))"

definition py_max :: "fl list \<Rightarrow> error + fl" where
  "py_max xs =
     (case xs of [] \<Rightarrow> Inl ValueError
      | x # r \<Rightarrow> Inr (foldl (\<lambda>m v. if flt m v then v else m) x r))"

text \<open>\<^verbatim>\<open>np.mean\<close> of a one-dimensional array: the sum over the length, NaN for an empty
  array.\<close>

definition np_mean :: "fl list \<Rightarrow> fl" where
  "np_mean xs = fdiv (fsum xs) (Fin (real (length xs)))"

record roi =
  roi_x :: fl
  roi_y :: fl
  roi_w :: fl
  roi_h :: fl

text \<open>
  The geographic collaborators: \<^verbatim>\<open>geographiclib.compute_utm_zone\<close>, the projection of a
  longitude and latitude to the easting and northing of a zone (\<^verbatim>\<open>geographiclib.utm_proj\<close>
  with \<^verbatim>\<open>pyproj.transform\<close>, point by point), and \<^verbatim>\<open>common.bounding_box2D\<close>.
\<close>

record geography =
  compute_utm_zone :: "fl \<Rightarrow> fl \<Rightarrow> string"
  to_utm :: "string \<Rightarrow> fl \<Rightarrow> fl \<Rightarrow> fl \<times> fl"
  bounding_box2D :: "(fl \<times> fl) list \<Rightarrow> fl \<times> fl \<times> fl \<times> fl"

text \<open>
  \<^verbatim>\<open>roi_process\<close> writes into the shared configuration. The model takes the configuration
  before the call and returns, with the result or the exception, the configuration after
  it. A zone that is \<^verbatim>\<open>None\<close> or the empty string is not a zone (\<^verbatim>\<open>if not utm_zone\<close>).
\<close>

definition roi_process ::
    "geography \<Rightarrow> fl camera \<Rightarrow> (fl \<times> fl) list \<Rightarrow> string option \<Rightarrow> 'z cfg_scheme
      \<Rightarrow> (error + roi) \<times> 'z cfg_scheme" where
  "roi_process geo rpc ll_poly zone_arg cfg =
     (let lons = map fst ll_poly;
          lats = map snd ll_poly;
          zone = (case zone_arg of
                    None \<Rightarrow> compute_utm_zone geo (np_mean lons) (np_mean lats)
                  | Some z \<Rightarrow> if z = [] then compute_utm_zone geo (np_mean lons) (np_mean lats)
                              else z);
          cfg = cfg\<lparr>utm_zone := Some zone\<rparr>;
          utm = map (\<lambda>(lon, lat). to_utm geo zone lon lat) ll_poly;
          easting = map fst utm;
          northing = map snd utm
      in case py_min easting of Inl e \<Rightarrow> (Inl e, cfg) | Inr east_min \<Rightarrow>
        (case py_max easting of Inl e \<Rightarrow> (Inl e, cfg) | Inr east_max \<Rightarrow>
        (case py_min northing of Inl e \<Rightarrow> (Inl e, cfg) | Inr nort_min \<Rightarrow>
        (case py_max northing of Inl e \<Rightarrow> (Inl e, cfg) | Inr nort_max \<Rightarrow>
          (let cfg = cfg\<lparr>utm_bbx := Some (east_min, east_max, nort_min, nort_max)\<rparr>;
               img_pts = vec3 (projection rpc) lons lats
                           (replicate (length ll_poly) (alt_offset rpc));
               img_pts = zip (fst img_pts) (snd img_pts);
               (x, y, w, h) = bounding_box2D geo img_pts
           in (Inr \<lparr>roi_x = x, roi_y = y, roi_w = w, roi_h = h\<rparr>, cfg))))))"

text \<open>The zone that a call derives, and the easting and northing of the polygon in it.\<close>

definition derived_zone :: "geography \<Rightarrow> (fl \<times> fl) list \<Rightarrow> string option \<Rightarrow> string" where
  "derived_zone geo ll_poly zone_arg =
     (case zone_arg of
        None \<Rightarrow> compute_utm_zone geo (np_mean (map fst ll_poly)) (np_mean (map snd ll_poly))
      | Some z \<Rightarrow> if z = [] then compute_utm_zone geo (np_mean (map fst ll_poly))
                                (np_mean (map snd ll_poly))
                  else z)"

definition projected :: "geography \<Rightarrow> (fl \<times> fl) list \<Rightarrow> string option \<Rightarrow> (fl \<times> fl) list" where
  "projected geo ll_poly zone_arg =
     map (\<lambda>(lon, lat). to_utm geo (derived_zone geo ll_poly zone_arg) lon lat) ll_poly"

subsection \<open>Example geography\<close>

definition example_geography :: geography where
  "example_geography = \<lparr>compute_utm_zone = (\<lambda>lon lat. ''31N''),
     to_utm = (\<lambda>zone lon lat. (fmul lon (Fin 1000), fmul lat (Fin 1000))),
     bounding_box2D = (\<lambda>pts. (Fin 0, Fin 0, Fin 1, Fin 1))\<rparr>"

section \<open>Normalisation of points: \<^verbatim>\<open>normalize_2d_points\<close>, \<^verbatim>\<open>normalize_3d_points\<close>\<close>














section \<open>Camera matrix: \<^verbatim>\<open>camera_matrix\<close>\<close>









subsection \<open>Example correspondences\<close>




section \<open>Properties of the height triangulation\<close>

lemmas eval_defs = height_iteration_def reproject_def probe_def find_corresponding_point_def
  vec3_def vstackT_def vadd_def vsub_def fsub_def dot2_def np_dot_def np_diag_def fsum_def
  zeros_def HSTEP_def inf_of_def Let_def

lemma fadd_NaN_right [simp]: "fadd x NaN = NaN"
  by (cases x) simp_all

lemma fmul_NaN_right [simp]: "fmul x NaN = NaN"
  by (cases x) simp_all

lemma fdiv_NaN_right [simp]: "fdiv x NaN = NaN"
  by (cases x) simp_all

lemma length_reproject:
  "length y1 = length x1 \<Longrightarrow> length h = length x1 \<Longrightarrow>
   length (reproject model_a model_b x1 y1 h) = length x1"
  by (simp add: reproject_def find_corresponding_point_def vec3_def vstackT_def Let_def
      split: prod.splits)

lemma length_probe:
  "length y1 = length x1 \<Longrightarrow> length h = length x1 \<Longrightarrow>
   length (probe model_a model_b x1 y1 h) = length x1"
  by (simp add: probe_def Let_def length_reproject)

lemma length_np_dot_diag: "length (np_dot (np_diag h) a) = length h"
  by (simp add: np_dot_def np_diag_def)

lemma length_increments:
  "length y1 = length x1 \<Longrightarrow> length p2 = length x1 \<Longrightarrow> length h0 = length x1 \<Longrightarrow>
   length (increments ma mb x1 y1 p2 h0) = length x1"
  by (simp add: increments_def height_iteration_def Let_def length_reproject length_probe)

lemma length_new_heights:
  "length y1 = length x1 \<Longrightarrow> length p2 = length x1 \<Longrightarrow> length h0 = length x1 \<Longrightarrow>
   length (new_heights ma mb x1 y1 p2 h0) = length x1"
  by (simp add: new_heights_def height_iteration_def Let_def length_reproject length_probe)

lemma length_residuals:
  "length y1 = length x1 \<Longrightarrow> length p2 = length x1 \<Longrightarrow> length h0 = length x1 \<Longrightarrow>
   length (residuals ma mb x1 y1 p2 h0) = length x1"
  by (simp add: residuals_def height_iteration_def Let_def length_reproject length_probe
      length_np_dot_diag)

lemma height_iteration_eq:
  "height_iteration ma mb x1 y1 p2 h0 =
    (new_heights ma mb x1 y1 p2 h0, residuals ma mb x1 y1 p2 h0, increments ma mb x1 y1 p2 h0)"
  by (simp add: new_heights_def residuals_def increments_def)

lemma threshold_met_nonempty: "inc \<noteq> [] \<Longrightarrow> \<exists>b. threshold_met inc = Inr b"
  by (cases inc) (simp_all add: threshold_met_def np_max_def)

lemma loop_Suc:
  "compute_height_loop (Suc k) ma mb x1 y1 p2 h0 err =
     (case threshold_met (increments ma mb x1 y1 p2 h0) of
        Inl e \<Rightarrow> Inl e
      | Inr stop \<Rightarrow>
          if stop then Inr (new_heights ma mb x1 y1 p2 h0, residuals ma mb x1 y1 p2 h0)
          else compute_height_loop k ma mb x1 y1 p2 (new_heights ma mb x1 y1 p2 h0)
                 (residuals ma mb x1 y1 p2 h0))"
  by (simp add: height_iteration_eq)

lemma passes_Suc:
  "passes (Suc k) ma mb x1 y1 p2 h0 =
     h0 # (case threshold_met (increments ma mb x1 y1 p2 h0) of
        Inl e \<Rightarrow> []
      | Inr stop \<Rightarrow>
          if stop then [] else passes k ma mb x1 y1 p2 (new_heights ma mb x1 y1 p2 h0))"
  by (simp add: height_iteration_eq)

lemma length_passes: "length (passes k ma mb x1 y1 p2 h0) \<le> k"
proof (induction k arbitrary: h0)
  case 0
  then show ?case by simp
next
  case (Suc k)
  show ?case
    unfolding passes_Suc using Suc.IH
    by (auto split: sum.splits)
qed

lemma passes_nonempty: "passes (Suc k) ma mb x1 y1 p2 h0 \<noteq> []"
  unfolding passes_Suc by simp

lemma loop_trace:
  assumes "length y1 = length x1" "length p2 = length x1" "x1 \<noteq> []"
  shows "length h0 = length x1 \<Longrightarrow>
    compute_height_loop (Suc k) ma mb x1 y1 p2 h0 err =
      Inr (new_heights ma mb x1 y1 p2 (last (passes (Suc k) ma mb x1 y1 p2 h0)),
           residuals ma mb x1 y1 p2 (last (passes (Suc k) ma mb x1 y1 p2 h0)))
    \<and> (length (passes (Suc k) ma mb x1 y1 p2 h0) < Suc k \<longrightarrow>
         threshold_met (increments ma mb x1 y1 p2 (last (passes (Suc k) ma mb x1 y1 p2 h0)))
           = Inr True)
    \<and> (\<forall>h \<in> set (butlast (passes (Suc k) ma mb x1 y1 p2 h0)).
         threshold_met (increments ma mb x1 y1 p2 h) = Inr False)"
proof (induction k arbitrary: h0 err)
  case 0
  have "increments ma mb x1 y1 p2 h0 \<noteq> []"
    using length_increments [OF assms(1,2) 0, of ma mb] assms(3) by auto
  then obtain b where b: "threshold_met (increments ma mb x1 y1 p2 h0) = Inr b"
    using threshold_met_nonempty by blast
  show ?case
    unfolding loop_Suc passes_Suc by (simp add: b)
next
  case (Suc k)
  have "increments ma mb x1 y1 p2 h0 \<noteq> []"
    using length_increments [OF assms(1,2) Suc.prems, of ma mb] assms(3) by auto
  then obtain b where b: "threshold_met (increments ma mb x1 y1 p2 h0) = Inr b"
    using threshold_met_nonempty by blast
  show ?case
  proof (cases b)
    case True
    show ?thesis
      unfolding loop_Suc [of "Suc k"] passes_Suc [of "Suc k"] by (simp add: b True)
  next
    case False
    let ?h = "new_heights ma mb x1 y1 p2 h0"
    have len: "length ?h = length x1"
      using length_new_heights [OF assms(1,2) Suc.prems] .
    note IH = Suc.IH [OF len, of "residuals ma mb x1 y1 p2 h0"]
    have ne: "passes (Suc k) ma mb x1 y1 p2 ?h \<noteq> []"
      by (rule passes_nonempty)
    have p: "passes (Suc (Suc k)) ma mb x1 y1 p2 h0 = h0 # passes (Suc k) ma mb x1 y1 p2 ?h"
      unfolding passes_Suc [of "Suc k" ma mb x1 y1 p2 h0] by (simp add: b False)
    have l: "compute_height_loop (Suc (Suc k)) ma mb x1 y1 p2 h0 err =
        compute_height_loop (Suc k) ma mb x1 y1 p2 ?h (residuals ma mb x1 y1 p2 h0)"
      unfolding loop_Suc [of "Suc k" ma mb x1 y1 p2 h0] by (simp add: b False)
    show ?thesis
      unfolding p l using IH ne b False
      by (auto simp del: compute_height_loop.simps passes.simps)
  qed
qed

lemma loop_100:
  "compute_height_loop 100 ma mb x1 y1 p2 h0 err =
     (case threshold_met (increments ma mb x1 y1 p2 h0) of
        Inl e \<Rightarrow> Inl e
      | Inr stop \<Rightarrow>
          if stop then Inr (new_heights ma mb x1 y1 p2 h0, residuals ma mb x1 y1 p2 h0)
          else compute_height_loop 99 ma mb x1 y1 p2 (new_heights ma mb x1 y1 p2 h0)
                 (residuals ma mb x1 y1 p2 h0))"
  using loop_Suc [of 99 ma mb x1 y1 p2 h0 err] by simp

lemma loop_99:
  "compute_height_loop 99 ma mb x1 y1 p2 h0 err =
     (case threshold_met (increments ma mb x1 y1 p2 h0) of
        Inl e \<Rightarrow> Inl e
      | Inr stop \<Rightarrow>
          if stop then Inr (new_heights ma mb x1 y1 p2 h0, residuals ma mb x1 y1 p2 h0)
          else compute_height_loop 98 ma mb x1 y1 p2 (new_heights ma mb x1 y1 p2 h0)
                 (residuals ma mb x1 y1 p2 h0))"
  using loop_Suc [of 98 ma mb x1 y1 p2 h0 err] by simp

text \<open>
  Claim C2, for a batch that is not empty. The loop of \<^verbatim>\<open>compute_height\<close> makes between one
  and 100 passes; the function returns the heights and the residuals of its last pass,
  whether or not the threshold was met there; when it makes fewer than 100 passes, the
  test \<^verbatim>\<open>max(|h0_inc|) < 0.001\<close> held in the last one; and the test failed in every pass
  before the last, so that it is the only way out of the loop before the 100th pass.
\<close>

theorem compute_height_iterations:
  assumes "x1 \<noteq> []" "length y1 = length x1" "length x2 = length x1" "length y2 = length x1"
  shows "let p2 = vstackT x2 y2;
             tr = passes 100 model_a model_b x1 y1 p2 (zeros (length x1))
         in 1 \<le> length tr \<and> length tr \<le> 100
          \<and> compute_height model_a model_b x1 y1 x2 y2 =
              Inr (new_heights model_a model_b x1 y1 p2 (last tr),
                   residuals model_a model_b x1 y1 p2 (last tr))
          \<and> (length tr < 100 \<longrightarrow>
               threshold_met (increments model_a model_b x1 y1 p2 (last tr)) = Inr True)
          \<and> (\<forall>h \<in> set (butlast tr).
               threshold_met (increments model_a model_b x1 y1 p2 h) = Inr False)"
proof -
  let ?p2 = "vstackT x2 y2"
  have lp: "length ?p2 = length x1"
    using assms by (simp add: vstackT_def)
  have lz: "length (zeros (length x1)) = length x1"
    by (simp add: zeros_def)
  have h: "(100::nat) = Suc 99" by simp
  note t = loop_trace [OF assms(2) lp assms(1) lz, of 99 model_a model_b "zeros (length x1)",
      folded h]
  have ne: "passes 100 model_a model_b x1 y1 ?p2 (zeros (length x1)) \<noteq> []"
    using passes_nonempty [of 99 model_a model_b x1 y1 ?p2 "zeros (length x1)"] by simp
  then have one: "1 \<le> length (passes 100 model_a model_b x1 y1 ?p2 (zeros (length x1)))"
    by (cases "passes 100 model_a model_b x1 y1 ?p2 (zeros (length x1))") simp_all
  show ?thesis
    unfolding Let_def compute_height_def using t one length_passes [of 100 model_a model_b x1 y1 ?p2]
    by (simp del: compute_height_loop.simps passes.simps)
qed

lemma linear_pass_1:
  "height_iteration linear_camera linear_camera [Fin 0] [Fin 0] [(Fin 3, Fin 0)] [Fin 0] =
     ([Fin 3], [Fin 0], [Fin 3])"
  by (simp add: eval_defs linear_camera_def)

lemma linear_pass_2:
  "height_iteration linear_camera linear_camera [Fin 0] [Fin 0] [(Fin 3, Fin 0)] [Fin 3] =
     ([Fin 3], [Fin 0], [Fin 0])"
  by (simp add: eval_defs linear_camera_def)

lemma passes_100:
  "passes 100 ma mb x1 y1 p2 h0 =
     h0 # (case threshold_met (increments ma mb x1 y1 p2 h0) of
        Inl e \<Rightarrow> []
      | Inr stop \<Rightarrow>
          if stop then [] else passes 99 ma mb x1 y1 p2 (new_heights ma mb x1 y1 p2 h0))"
  using passes_Suc [of 99 ma mb x1 y1 p2 h0] by simp

lemma passes_99:
  "passes 99 ma mb x1 y1 p2 h0 =
     h0 # (case threshold_met (increments ma mb x1 y1 p2 h0) of
        Inl e \<Rightarrow> []
      | Inr stop \<Rightarrow>
          if stop then [] else passes 98 ma mb x1 y1 p2 (new_heights ma mb x1 y1 p2 h0))"
  using passes_Suc [of 98 ma mb x1 y1 p2 h0] by simp

lemma linear_passes:
  "passes 100 linear_camera linear_camera [Fin 0] [Fin 0] [(Fin 3, Fin 0)] [Fin 0] =
     [[Fin 0], [Fin 3]]"
  by (simp add: passes_100 passes_99 increments_def new_heights_def linear_pass_1 linear_pass_2
      threshold_met_def np_max_def)

theorem compute_height_iterations_witness:
  "length (passes 100 linear_camera linear_camera [Fin 0] [Fin 0] (vstackT [Fin 3] [Fin 0])
      (zeros (length [Fin 0 :: fl]))) = 2
   \<and> compute_height linear_camera linear_camera [Fin 0] [Fin 0] [Fin 3] [Fin 0] =
       Inr ([Fin 3], [Fin 0])"
  using compute_height_iterations [of "[Fin 0]" "[Fin 0]" "[Fin 3]" "[Fin 0]"
      linear_camera linear_camera]
  by (simp add: Let_def vstackT_def zeros_def linear_passes new_heights_def residuals_def
      linear_pass_2)

lemma empty_pass:
  "height_iteration flat_camera flat_camera [] [] [] [] = ([], [], [])"
  by (simp add: eval_defs)

text \<open>
  Claim C2 as it is written covers the empty batch too, and there the function raises: the
  increments of the first pass are an empty array, and \<^verbatim>\<open>np.max\<close> of it is a
  \<^verbatim>\<open>ValueError\<close>.
\<close>

theorem compute_height_empty_batch_raises:
  "compute_height flat_camera flat_camera [] [] [] [] = Inl ValueError"
  by (simp add: compute_height_def zeros_def vstackT_def loop_100 increments_def empty_pass
      threshold_met_def np_max_def)

lemma increments_nth:
  assumes "length y1 = length x1" "length p2 = length x1" "length h0 = length x1" "j < length x1"
  shows "increments ma mb x1 y1 p2 h0 ! j =
     fdiv (dot2 (probe ma mb x1 y1 h0 ! j) (vsub (p2 ! j) (reproject ma mb x1 y1 h0 ! j)))
          (dot2 (probe ma mb x1 y1 h0 ! j) (probe ma mb x1 y1 h0 ! j))"
  using assms
  by (simp add: increments_def height_iteration_def Let_def length_reproject length_probe)

lemma fmul_one [simp]: "fmul x (Fin 1) = x"
  by (cases x) (simp_all add: inf_of_def)

lemma new_heights_nth:
  assumes "length y1 = length x1" "length p2 = length x1" "length h0 = length x1" "j < length x1"
  shows "new_heights ma mb x1 y1 p2 h0 ! j = fadd (h0 ! j) (increments ma mb x1 y1 p2 h0 ! j)"
  using assms
  by (simp add: new_heights_def increments_def height_iteration_def Let_def length_reproject
      length_probe HSTEP_def)

lemma fmul_zero_left: "fmul (Fin 0) x = Fin 0 \<or> fmul (Fin 0) x = NaN"
  by (cases x) (simp_all add: inf_of_def)

lemma dot2_zero: "dot2 (Fin 0, Fin 0) v = Fin 0 \<or> dot2 (Fin 0, Fin 0) v = NaN"
  using fmul_zero_left [of "fst v"] fmul_zero_left [of "snd v"]
  by (auto simp: dot2_def)

lemma zero_probe_nan: "fdiv (dot2 (Fin 0, Fin 0) v) (dot2 (Fin 0, Fin 0) (Fin 0, Fin 0)) = NaN"
proof -
  have d: "dot2 (Fin 0, Fin 0) (Fin 0, Fin 0) = Fin 0"
    by (simp add: dot2_def)
  show ?thesis
    using dot2_zero [of v] by (auto simp: d inf_of_def)
qed

lemma loop_nan:
  assumes "length y1 = length x1" "length p2 = length x1" "j < length x1"
  shows "length h0 = length x1 \<Longrightarrow> h0 ! j = NaN \<Longrightarrow>
    \<exists>h e. compute_height_loop k ma mb x1 y1 p2 h0 err = Inr (h, e) \<and> h ! j = NaN"
proof (induction k arbitrary: h0 err)
  case 0
  then show ?case by simp
next
  case (Suc k)
  let ?h = "new_heights ma mb x1 y1 p2 h0"
  have len: "length ?h = length x1"
    using length_new_heights [OF assms(1,2) Suc.prems(1)] .
  have nan: "?h ! j = NaN"
    using new_heights_nth [OF assms(1,2) Suc.prems(1) assms(3), of ma mb] Suc.prems(2) by simp
  have "increments ma mb x1 y1 p2 h0 \<noteq> []"
    using length_increments [OF assms(1,2) Suc.prems(1), of ma mb] assms(3) by auto
  then obtain b where b: "threshold_met (increments ma mb x1 y1 p2 h0) = Inr b"
    using threshold_met_nonempty by blast
  show ?case
    unfolding loop_Suc using nan Suc.IH [OF len nan] by (simp add: b)
qed

lemma passes_lengths:
  assumes "length y1 = length x1" "length p2 = length x1"
  shows "length hs = length x1 \<Longrightarrow> h0 \<in> set (passes k ma mb x1 y1 p2 hs) \<Longrightarrow>
    length h0 = length x1
    \<and> (\<exists>k' e. compute_height_loop k ma mb x1 y1 p2 hs err =
                 compute_height_loop (Suc k') ma mb x1 y1 p2 h0 e)"
proof (induction k arbitrary: hs err)
  case 0
  then show ?case by simp
next
  case (Suc k)
  show ?case
  proof (cases "h0 = hs")
    case True
    then show ?thesis using Suc.prems(1) by blast
  next
    case False
    let ?h = "new_heights ma mb x1 y1 p2 hs"
    have len: "length ?h = length x1"
      using length_new_heights [OF assms(1,2) Suc.prems(1)] .
    from Suc.prems(2) False
    have mem: "h0 \<in> set (passes k ma mb x1 y1 p2 ?h)"
      and stop: "threshold_met (increments ma mb x1 y1 p2 hs) = Inr False"
      unfolding passes_Suc by (auto split: sum.splits if_splits)
    have l: "compute_height_loop (Suc k) ma mb x1 y1 p2 hs err =
        compute_height_loop k ma mb x1 y1 p2 ?h (residuals ma mb x1 y1 p2 hs)"
      unfolding loop_Suc by (simp add: stop)
    show ?thesis
      unfolding l using Suc.IH [OF len mem] .
  qed
qed

text \<open>
  Claim C6. Take any pass that the loop of \<^verbatim>\<open>compute_height\<close> makes on an equal-length
  batch, and a point \<open>j\<close> whose probe displacement \<open>a = r1 - r0\<close> is the zero vector in that
  pass. Nothing guards the division: the increment \<open>h0_inc\<close> of the point is NaN there, the
  function still returns, and the height it returns for the point is NaN.
\<close>

theorem compute_height_nan:
  assumes "length y1 = length x1" "length x2 = length x1" "length y2 = length x1"
    and "j < length x1"
    and "h0 \<in> set (passes 100 model_a model_b x1 y1 (vstackT x2 y2) (zeros (length x1)))"
    and "probe model_a model_b x1 y1 h0 ! j = (Fin 0, Fin 0)"
  shows "increments model_a model_b x1 y1 (vstackT x2 y2) h0 ! j = NaN
    \<and> (\<exists>h err. compute_height model_a model_b x1 y1 x2 y2 = Inr (h, err) \<and> h ! j = NaN)"
proof -
  let ?p2 = "vstackT x2 y2"
  have lp: "length ?p2 = length x1"
    using assms by (simp add: vstackT_def)
  have lz: "length (zeros (length x1)) = length x1"
    by (simp add: zeros_def)
  from passes_lengths [OF assms(1) lp lz assms(5), of "zeros (length x1)"]
  obtain k' e where len: "length h0 = length x1"
    and eq: "compute_height_loop 100 model_a model_b x1 y1 ?p2 (zeros (length x1))
        (zeros (length x1)) = compute_height_loop (Suc k') model_a model_b x1 y1 ?p2 h0 e"
    by blast
  have inc: "increments model_a model_b x1 y1 ?p2 h0 ! j = NaN"
    unfolding increments_nth [OF assms(1) lp len assms(4)] assms(6) by (rule zero_probe_nan)
  let ?h = "new_heights model_a model_b x1 y1 ?p2 h0"
  have lh: "length ?h = length x1"
    using length_new_heights [OF assms(1) lp len] .
  have nan: "?h ! j = NaN"
    using new_heights_nth [OF assms(1) lp len assms(4), of model_a model_b] inc by simp
  have "increments model_a model_b x1 y1 ?p2 h0 \<noteq> []"
    using length_increments [OF assms(1) lp len, of model_a model_b] assms(4) by auto
  then obtain b where b: "threshold_met (increments model_a model_b x1 y1 ?p2 h0) = Inr b"
    using threshold_met_nonempty by blast
  have "\<exists>h err. compute_height_loop (Suc k') model_a model_b x1 y1 ?p2 h0 e = Inr (h, err)
      \<and> h ! j = NaN"
    unfolding loop_Suc
    using nan loop_nan [OF assms(1) lp assms(4) lh nan, of k' model_a model_b
        "residuals model_a model_b x1 y1 ?p2 h0"]
    by (simp add: b)
  then show ?thesis
    using inc eq by (simp add: compute_height_def Let_def del: compute_height_loop.simps)
qed

lemma flat_probe: "probe flat_camera flat_camera [Fin 0] [Fin 0] [Fin 0] = [(Fin 0, Fin 0)]"
  by (simp add: eval_defs flat_camera_def)

theorem compute_height_nan_witness:
  "increments flat_camera flat_camera [Fin 0] [Fin 0] (vstackT [Fin 1] [Fin 1]) [Fin 0] ! 0 = NaN
   \<and> (\<exists>h err. compute_height flat_camera flat_camera [Fin 0] [Fin 0] [Fin 1] [Fin 1] = Inr (h, err)
        \<and> h ! 0 = NaN)"
  using compute_height_nan [of "[Fin 0]" "[Fin 0]" "[Fin 1]" "[Fin 1]" 0 "[Fin 0]"
      flat_camera flat_camera]
  by (simp add: passes_100 zeros_def flat_probe)


lemma fadd_zero_right [simp]: "fadd x (Fin 0) = x"
  by (cases x) simp_all

lemma fadd_zero_left [simp]: "fadd (Fin 0) x = x"
  by (cases x) simp_all

lemma fmul_zero_finite: "is_finite x \<Longrightarrow> fmul (Fin 0) x = Fin 0"
  by (cases x) simp_all

lemma foldl_zero_row:
  "\<forall>x \<in> set xs. is_finite x \<Longrightarrow>
   foldl fadd acc (map2 fmul (replicate n (Fin 0)) xs) = acc"
proof (induction xs arbitrary: n acc)
  case Nil
  then show ?case by simp
next
  case (Cons x xs)
  then show ?case
    by (cases n) (simp_all add: fmul_zero_finite)
qed

lemma foldl_unit_row:
  "\<forall>x \<in> set xs. is_finite x \<Longrightarrow> j < length xs \<Longrightarrow>
   foldl fadd acc (map2 fmul ((replicate (length xs) (Fin 0))[j := v]) xs) =
     fadd acc (fmul v (xs ! j))"
proof (induction xs arbitrary: j acc)
  case Nil
  then show ?case by simp
next
  case (Cons x xs)
  show ?case
  proof (cases j)
    case 0
    then show ?thesis
      using Cons.prems by (simp add: foldl_zero_row)
  next
    case (Suc i)
    then show ?thesis
      using Cons.prems Cons.IH [of i acc] by (simp add: fmul_zero_finite)
  qed
qed

lemma np_dot_diag_nth:
  assumes "length a = length h" "j < length h"
    and "\<forall>k < length h. is_finite (fst (a ! k)) \<and> is_finite (snd (a ! k))"
  shows "np_dot (np_diag h) a ! j = (fmul (h ! j) (fst (a ! j)), fmul (h ! j) (snd (a ! j)))"
proof -
  have f1: "\<forall>x \<in> set (map fst a). is_finite x"
  proof
    fix x
    assume "x \<in> set (map fst a)"
    then obtain i where "i < length a" "x = fst (a ! i)"
      by (auto simp: in_set_conv_nth)
    then show "is_finite x"
      using assms(1,3) by simp
  qed
  have f2: "\<forall>x \<in> set (map snd a). is_finite x"
  proof
    fix x
    assume "x \<in> set (map snd a)"
    then obtain i where "i < length a" "x = snd (a ! i)"
      by (auto simp: in_set_conv_nth)
    then show "is_finite x"
      using assms(1,3) by simp
  qed
  have l1: "length (map fst a) = length h" and l2: "length (map snd a) = length h"
    using assms(1) by simp_all
  have j1: "j < length (map fst a)" and j2: "j < length (map snd a)"
    using assms(1,2) by simp_all
  show ?thesis
    using foldl_unit_row [OF f1 j1, of "Fin 0" "h ! j"] foldl_unit_row [OF f2 j2, of "Fin 0" "h ! j"]
      assms(1,2)
    by (simp add: np_dot_def np_diag_def fsum_def zeros_def)
qed

lemma residuals_nth:
  assumes "length y1 = length x1" "length p2 = length x1" "length h0 = length x1" "j < length x1"
  shows "residuals ma mb x1 y1 p2 h0 ! j =
     (let t = vsub (vadd (reproject ma mb x1 y1 h0 ! j)
                (np_dot (np_diag (increments ma mb x1 y1 p2 h0)) (probe ma mb x1 y1 h0) ! j))
              (p2 ! j)
      in fsqrt (dot2 t t))"
  using assms
  by (simp add: residuals_def increments_def height_iteration_def Let_def length_reproject
      length_probe length_np_dot_diag)

text \<open>
  Claim C3, as the code has it. In every pass the new height of a point is its old height
  plus the increment, and the residual of the point is the Euclidean distance between the
  observed point \<open>p2\<close> and \<open>q = r0 + h_inc * a\<close>: the reprojection \<open>r0\<close> at the old height,
  moved by the increment along the probe displacement \<open>a\<close>. The source takes the product
  \<open>h_inc * a\<close> as the matrix product \<^verbatim>\<open>np.dot(np.diag(h0_inc), a)\<close>, which is this point's
  own product as long as the displacements of the whole batch are finite.
\<close>

theorem compute_height_residual:
  assumes "length y1 = length x1" "length p2 = length x1" "length h0 = length x1"
    and "j < length x1"
    and "\<forall>k < length x1. is_finite (fst (probe model_a model_b x1 y1 h0 ! k))
           \<and> is_finite (snd (probe model_a model_b x1 y1 h0 ! k))"
  shows "new_heights model_a model_b x1 y1 p2 h0 ! j =
           fadd (h0 ! j) (increments model_a model_b x1 y1 p2 h0 ! j)
    \<and> residuals model_a model_b x1 y1 p2 h0 ! j =
        (let q = extrapolation (reproject model_a model_b x1 y1 h0 ! j)
                   (increments model_a model_b x1 y1 p2 h0 ! j)
                   (probe model_a model_b x1 y1 h0 ! j);
             t = vsub q (p2 ! j)
         in fsqrt (dot2 t t))"
proof -
  have li: "length (increments model_a model_b x1 y1 p2 h0) = length x1"
    using length_increments [OF assms(1,2,3)] .
  have lp: "length (probe model_a model_b x1 y1 h0) =
      length (increments model_a model_b x1 y1 p2 h0)"
    using length_probe [OF assms(1,3)] li by simp
  have d: "np_dot (np_diag (increments model_a model_b x1 y1 p2 h0))
        (probe model_a model_b x1 y1 h0) ! j =
      (fmul (increments model_a model_b x1 y1 p2 h0 ! j) (fst (probe model_a model_b x1 y1 h0 ! j)),
       fmul (increments model_a model_b x1 y1 p2 h0 ! j) (snd (probe model_a model_b x1 y1 h0 ! j)))"
    using np_dot_diag_nth [OF lp] assms(4,5) li by simp
  show ?thesis
    using new_heights_nth [OF assms(1,2,3,4), of model_a model_b]
      residuals_nth [OF assms(1,2,3,4), of model_a model_b]
    by (simp add: d extrapolation_def Let_def)
qed

lemma linear_probe:
  "probe linear_camera linear_camera [Fin 0] [Fin 0] [Fin 0] = [(Fin 1, Fin 0)]"
  by (simp add: eval_defs linear_camera_def)

lemma linear_reproject:
  "reproject linear_camera linear_camera [Fin 0] [Fin 0] [Fin 0] = [(Fin 0, Fin 0)]"
  by (simp add: eval_defs linear_camera_def)

theorem compute_height_residual_witness:
  "new_heights linear_camera linear_camera [Fin 0] [Fin 0] [(Fin 3, Fin 0)] [Fin 0] ! 0 = Fin 3
   \<and> residuals linear_camera linear_camera [Fin 0] [Fin 0] [(Fin 3, Fin 0)] [Fin 0] ! 0 =
       fsqrt (dot2 (vsub (extrapolation (Fin 0, Fin 0) (Fin 3) (Fin 1, Fin 0)) (Fin 3, Fin 0))
                (vsub (extrapolation (Fin 0, Fin 0) (Fin 3) (Fin 1, Fin 0)) (Fin 3, Fin 0)))"
  using compute_height_residual [of "[Fin 0]" "[Fin 0]" "[(Fin 3, Fin 0)]" "[Fin 0]" 0
      linear_camera linear_camera]
  by (simp add: linear_probe linear_reproject increments_def linear_pass_1 Let_def)

lemma quadratic_pass:
  "height_iteration quadratic_camera quadratic_camera [Fin 0] [Fin 0]
     [(Fin (1 / 2000), Fin 0)] [Fin 0] = ([Fin (1 / 2000)], [Fin 0], [Fin (1 / 2000)])"
  by (simp add: eval_defs quadratic_camera_def)

lemma quadratic_result:
  "compute_height quadratic_camera quadratic_camera [Fin 0] [Fin 0] [Fin (1 / 2000)] [Fin 0] =
     Inr ([Fin (1 / 2000)], [Fin 0])"
  by (simp add: compute_height_def zeros_def vstackT_def loop_100 increments_def new_heights_def
      residuals_def quadratic_pass threshold_met_def np_max_def Let_def)

lemma quadratic_error:
  "reprojection_error quadratic_camera quadratic_camera [Fin 0] [Fin 0]
     [(Fin (1 / 2000), Fin 0)] [Fin (1 / 2000)] = [Fin (1999 / 4000000)]"
proof -
  have "sqrt (3996001 / 16000000000000) = (1999 / 4000000 :: real)"
    by (rule real_sqrt_unique) (simp_all add: power2_eq_square)
  then show ?thesis
    by (simp add: reprojection_error_def eval_defs quadratic_camera_def)
qed

text \<open>
  Claim C3 as it is written takes the residual for the distance from the reprojection at
  the new height. With a camera whose reprojection is not linear in the altitude the two
  differ: the function returns the height \<open>1/2000\<close> with residual \<open>0\<close>, and the reprojection
  at that height is \<open>1999/4000000\<close> of a pixel away from the observed point.
\<close>

theorem compute_height_residual_not_reprojection:
  "compute_height quadratic_camera quadratic_camera [Fin 0] [Fin 0] [Fin (1 / 2000)] [Fin 0] =
     Inr ([Fin (1 / 2000)], [Fin 0])
   \<and> reprojection_error quadratic_camera quadratic_camera [Fin 0] [Fin 0]
       (vstackT [Fin (1 / 2000)] [Fin 0]) [Fin (1 / 2000)] = [Fin (1999 / 4000000)]
   \<and> reprojection_error quadratic_camera quadratic_camera [Fin 0] [Fin 0]
       (vstackT [Fin (1 / 2000)] [Fin 0]) [Fin (1 / 2000)] \<noteq> [Fin 0]"
  by (simp add: quadratic_result quadratic_error vstackT_def)

section \<open>Properties of the altitude range\<close>

lemma np_min_Cons: "np_min (x # xs) = Inr (foldl fmin2 x xs)"
  by (simp add: np_min_def)

lemma np_max_Cons: "np_max (x # xs) = Inr (foldl fmax2 x xs)"
  by (simp add: np_max_def)

lemma ebind_Inr [simp]: "ebind (Inr v) f = f v"
  by (simp add: ebind_def)

lemma ebind_Inl [simp]: "ebind (Inl e) f = Inl e"
  by (simp add: ebind_def)

lemma geodesic_bounding_box_returns: "\<exists>bb. geodesic_bounding_box rpc x y w h = Inr bb"
  by (simp add: geodesic_bounding_box_def vec3_def Let_def np_min_Cons np_max_Cons)

text \<open>
  The paths of \<^verbatim>\<open>altitude_range\<close>. The bounding box on the ellipsoid is always computed.
  With an exogenous elevation model configured, \<open>margin_bottom\<close> is added to the lower bound
  and \<open>margin_top\<close> to the upper bound of whatever \<^verbatim>\<open>min_max_heights_from_bbx\<close> returns, be
  it heights read from the raster or its own coarse fallback. With none configured, the
  result is the coarse range of the camera model as it is. And when the clipped window of
  the raster is empty, \<^verbatim>\<open>min_max_heights_from_bbx\<close> returns exactly
  \<open>(alt_offset - k * alt_scale, alt_offset + k * alt_scale)\<close> for the configured factor \<open>k\<close>.
\<close>

lemma altitude_range_margins:
  "(\<exists>bb. geodesic_bounding_box rpc x y w h = Inr bb)
   \<and> (geodesic_bounding_box rpc x y w h = Inr (lon_m, lon_M, lat_m, lat_M) \<longrightarrow>
        exogenous_dem cfg = Some dem \<longrightarrow>
        min_max_heights_from_bbx wd cfg dem lon_m lon_M lat_m lat_M rpc = Inr (h_m, h_M) \<longrightarrow>
        altitude_range wd cfg rpc x y w h margin_top margin_bottom =
          Inr (fadd h_m margin_bottom, fadd h_M margin_top))
   \<and> (exogenous_dem cfg = None \<longrightarrow>
        altitude_range wd cfg rpc x y w h margin_top margin_bottom =
          Inr (fsub (alt_offset rpc) (fmul (rpc_alt_range_scale_factor cfg) (alt_scale rpc)),
               fadd (alt_offset rpc) (fmul (rpc_alt_range_scale_factor cfg) (alt_scale rpc))))
   \<and> (access_window (open_dataset wd dem) lon_m lon_M lat_m lat_M = Inr (x0, y0, w', h') \<longrightarrow>
        w' = 0 \<or> h' = 0 \<longrightarrow>
        min_max_heights_from_bbx wd cfg dem lon_m lon_M lat_m lat_M rpc =
          Inr (fsub (alt_offset rpc) (fmul (rpc_alt_range_scale_factor cfg) (alt_scale rpc)),
               fadd (alt_offset rpc) (fmul (rpc_alt_range_scale_factor cfg) (alt_scale rpc))))"
proof (intro conjI impI)
  show "\<exists>bb. geodesic_bounding_box rpc x y w h = Inr bb"
    by (rule geodesic_bounding_box_returns)
next
  assume "geodesic_bounding_box rpc x y w h = Inr (lon_m, lon_M, lat_m, lat_M)"
    and "exogenous_dem cfg = Some dem"
    and "min_max_heights_from_bbx wd cfg dem lon_m lon_M lat_m lat_M rpc = Inr (h_m, h_M)"
  then show "altitude_range wd cfg rpc x y w h margin_top margin_bottom =
      Inr (fadd h_m margin_bottom, fadd h_M margin_top)"
    by (simp add: altitude_range_def)
next
  assume n: "exogenous_dem cfg = None"
  obtain bb where bb: "geodesic_bounding_box rpc x y w h = Inr bb"
    using geodesic_bounding_box_returns by blast
  show "altitude_range wd cfg rpc x y w h margin_top margin_bottom =
      Inr (fsub (alt_offset rpc) (fmul (rpc_alt_range_scale_factor cfg) (alt_scale rpc)),
           fadd (alt_offset rpc) (fmul (rpc_alt_range_scale_factor cfg) (alt_scale rpc)))"
    by (simp add: altitude_range_def bb n altitude_range_coarse_def Let_def split: prod.splits)
next
  assume "access_window (open_dataset wd dem) lon_m lon_M lat_m lat_M = Inr (x0, y0, w', h')"
    and "w' = 0 \<or> h' = 0"
  then show "min_max_heights_from_bbx wd cfg dem lon_m lon_M lat_m lat_M rpc =
      Inr (fsub (alt_offset rpc) (fmul (rpc_alt_range_scale_factor cfg) (alt_scale rpc)),
           fadd (alt_offset rpc) (fmul (rpc_alt_range_scale_factor cfg) (alt_scale rpc)))"
    by (auto simp: min_max_heights_from_bbx_def altitude_range_coarse_def Let_def)
qed

lemma example_bounding_box:
  "geodesic_bounding_box linear_camera 0 0 10 10 = Inr (Fin 0, Fin 10, Fin 0, Fin 10)"
  by (simp add: geodesic_bounding_box_def vec3_def Let_def np_min_Cons np_max_Cons
      linear_camera_def fsub_def)

lemma example_window:
  "access_window (example_dataset (10, 10)) (Fin 0) (Fin 10) (Fin 0) (Fin 10) = Inr (0, 0, 9, 9)"
  by (simp add: access_window_def example_dataset_def np_min_Cons np_max_Cons np_clip_def
      Let_def)

lemma example_window_small:
  "access_window (example_dataset (1, 1)) (Fin 0) (Fin 10) (Fin 0) (Fin 10) = Inr (0, 0, 0, 0)"
  by (simp add: access_window_def example_dataset_def np_min_Cons np_max_Cons np_clip_def
      Let_def)

lemma example_heights:
  "min_max_heights_from_bbx (example_world (10, 10)) (example_cfg (Some ''dem.tif'')) ''dem.tif''
     (Fin 0) (Fin 10) (Fin 0) (Fin 10) linear_camera = Inr (Fin 5, Fin 7)"
  by (simp add: min_max_heights_from_bbx_def example_world_def example_window Let_def)
    (simp add: example_dataset_def np_nanmin_def np_nanmax_def example_cfg_def)

lemma altitude_range_margins_examples:
  "altitude_range (example_world (10, 10)) (example_cfg (Some ''dem.tif'')) linear_camera
      0 0 10 10 (Fin 100) (Fin (- 100)) = Inr (Fin (- 95), Fin 107)
   \<and> altitude_range (example_world (10, 10)) (example_cfg None) linear_camera
      0 0 10 10 (Fin 0) (Fin 0) = Inr (Fin (- 1), Fin 1)
   \<and> min_max_heights_from_bbx (example_world (1, 1)) (example_cfg (Some ''dem.tif'')) ''dem.tif''
      (Fin 0) (Fin 10) (Fin 0) (Fin 10) linear_camera = Inr (Fin (- 1), Fin 1)"
proof -
  have a: "altitude_range (example_world (10, 10)) (example_cfg (Some ''dem.tif'')) linear_camera
      0 0 10 10 (Fin 100) (Fin (- 100)) = Inr (Fin (- 95), Fin 107)"
    using altitude_range_margins [of linear_camera 0 0 10 10 "Fin 0" "Fin 10" "Fin 0" "Fin 10"
        "example_cfg (Some ''dem.tif'')" "''dem.tif''" "example_world (10, 10)" "Fin 5" "Fin 7"
        "Fin 100" "Fin (- 100)"]
    by (simp add: example_bounding_box example_heights) (simp add: example_cfg_def)
  have b: "altitude_range (example_world (10, 10)) (example_cfg None) linear_camera
      0 0 10 10 (Fin 0) (Fin 0) = Inr (Fin (- 1), Fin 1)"
    using altitude_range_margins [of linear_camera 0 0 10 10 _ _ _ _ "example_cfg None" _
        "example_world (10, 10)" _ _ "Fin 0" "Fin 0"]
    by (simp add: example_cfg_def linear_camera_def fsub_def)
  have c: "min_max_heights_from_bbx (example_world (1, 1)) (example_cfg (Some ''dem.tif''))
      ''dem.tif'' (Fin 0) (Fin 10) (Fin 0) (Fin 10) linear_camera = Inr (Fin (- 1), Fin 1)"
    using altitude_range_margins [of linear_camera 0 0 10 10 "Fin 0" "Fin 10" "Fin 0" "Fin 10"
        "example_cfg (Some ''dem.tif'')" "''dem.tif''" "example_world (1, 1)" _ _ _ _ 0 0 0 0]
    by (simp add: example_world_def example_window_small)
      (simp add: example_cfg_def linear_camera_def fsub_def)
  show ?thesis
    using a b c by simp
qed

lemma nodata_heights:
  "min_max_heights_from_bbx nodata_world (example_cfg (Some ''dem.tif'')) ''dem.tif''
     (Fin 0) (Fin 10) (Fin 0) (Fin 10) linear_camera = Inr (NaN, NaN)"
proof -
  have w: "access_window (open_dataset nodata_world ''dem.tif'') (Fin 0) (Fin 10) (Fin 0) (Fin 10) =
      Inr (0, 0, 9, 9)"
    by (simp add: access_window_def nodata_world_def np_min_Cons np_max_Cons np_clip_def Let_def)
  show ?thesis
    by (simp add: min_max_heights_from_bbx_def w Let_def)
      (simp add: nodata_world_def np_nanmin_def np_nanmax_def example_cfg_def)
qed

text \<open>
  Claim C1: the margins are added to the range on every path. The code does not do so
  when no elevation model is configured. With a camera model of offset 0 and scale 1, the
  factor 1 and the margins 100 and -100, the call without an elevation model returns the
  coarse range \<open>(-1, 1)\<close> with no margin added; the call with an elevation model whose window
  is empty falls back to the same coarse range, adds the margins and returns \<open>(-101, 101)\<close>.
\<close>

theorem altitude_range_coarse_no_margins:
  "altitude_range (example_world (10, 10)) (example_cfg None) linear_camera
      0 0 10 10 (Fin 100) (Fin (- 100)) = Inr (Fin (- 1), Fin 1)
   \<and> altitude_range (example_world (1, 1)) (example_cfg (Some ''dem.tif'')) linear_camera
      0 0 10 10 (Fin 100) (Fin (- 100)) = Inr (Fin (- 101), Fin 101)"
proof -
  have a: "altitude_range (example_world (10, 10)) (example_cfg None) linear_camera
      0 0 10 10 (Fin 100) (Fin (- 100)) = Inr (Fin (- 1), Fin 1)"
    by (simp add: altitude_range_def example_bounding_box)
      (simp add: example_cfg_def altitude_range_coarse_def linear_camera_def fsub_def)
  have h: "min_max_heights_from_bbx (example_world (1, 1)) (example_cfg (Some ''dem.tif''))
      ''dem.tif'' (Fin 0) (Fin 10) (Fin 0) (Fin 10) linear_camera = Inr (Fin (- 1), Fin 1)"
    using altitude_range_margins_examples by simp
  have e: "exogenous_dem (example_cfg (Some ''dem.tif'')) = Some ''dem.tif''"
    by (simp add: example_cfg_def)
  have b: "altitude_range (example_world (1, 1)) (example_cfg (Some ''dem.tif'')) linear_camera
      0 0 10 10 (Fin 100) (Fin (- 100)) = Inr (Fin (- 101), Fin 101)"
    by (simp add: altitude_range_def example_bounding_box e h)
  from a b show ?thesis
    by (rule conjI)
qed

section \<open>Properties of the disparity range\<close>

lemma alt_to_disp_Cons:
  "alt_to_disp lib rpc1 rpc2 (x # xs) (y # ys) (z # zs) H1 H2 A =
     alt_to_disp lib rpc1 rpc2 [x] [y] [z] H1 H2 A @ alt_to_disp lib rpc1 rpc2 xs ys zs H1 H2 A"
  by (cases A)
    (simp_all add: alt_to_disp_def find_corresponding_point_def vec3_def vstackT_def Let_def
      case_prod_beta)

lemma alt_to_disp_Nil: "alt_to_disp lib rpc1 rpc2 [] [] [] H1 H2 A = []"
  by (cases A)
    (simp_all add: alt_to_disp_def find_corresponding_point_def vec3_def vstackT_def Let_def)

lemma alt_to_disp_single:
  "\<exists>d. alt_to_disp lib rpc1 rpc2 [x] [y] [z] H1 H2 A = [d]"
  by (cases A)
    (simp_all add: alt_to_disp_def find_corresponding_point_def vec3_def vstackT_def Let_def
      case_prod_beta)

lemma foldl_min_le: "foldl min (x::'a::linorder) xs \<le> x"
proof (induction xs arbitrary: x)
  case Nil
  then show ?case by simp
next
  case (Cons a xs)
  have "foldl min (min x a) xs \<le> min x a"
    by (rule Cons.IH)
  also have "min x a \<le> x"
    by simp
  finally show ?case by simp
qed

lemma foldl_min_lower: "y \<in> set (x # xs) \<Longrightarrow> foldl min (x::'a::linorder) xs \<le> y"
proof (induction xs arbitrary: x)
  case Nil
  then show ?case by simp
next
  case (Cons a xs)
  have "foldl min (min x a) xs \<le> min x a"
    by (rule foldl_min_le)
  then show ?case
    using Cons.prems Cons.IH [of "min x a"] by auto
qed

lemma foldl_max_ge: "x \<le> foldl max (x::'a::linorder) xs"
proof (induction xs arbitrary: x)
  case Nil
  then show ?case by simp
next
  case (Cons a xs)
  have "x \<le> max x a"
    by simp
  also have "max x a \<le> foldl max (max x a) xs"
    by (rule Cons.IH)
  finally show ?case by simp
qed

lemma foldl_max_upper: "y \<in> set (x # xs) \<Longrightarrow> y \<le> foldl max (x::'a::linorder) xs"
proof (induction xs arbitrary: x)
  case Nil
  then show ?case by simp
next
  case (Cons a xs)
  have "max x a \<le> foldl max (max x a) xs"
    by (rule foldl_max_ge)
  then show ?case
    using Cons.prems Cons.IH [of "max x a"] by auto
qed


lemma corner_disparities:
  "alt_to_disp lib rpc1 rpc2
     (map of_int [x, x, x, x, x + w, x + w, x + w, x + w])
     (map of_int [y, y, y + h, y + h, y, y, y + h, y + h])
     [m, M, m, M, m, M, m, M] H1 H2 A =
   corner_disparity lib rpc1 rpc2 H1 H2 A x y m
   @ corner_disparity lib rpc1 rpc2 H1 H2 A x y M
   @ corner_disparity lib rpc1 rpc2 H1 H2 A x (y + h) m
   @ corner_disparity lib rpc1 rpc2 H1 H2 A x (y + h) M
   @ corner_disparity lib rpc1 rpc2 H1 H2 A (x + w) y m
   @ corner_disparity lib rpc1 rpc2 H1 H2 A (x + w) y M
   @ corner_disparity lib rpc1 rpc2 H1 H2 A (x + w) (y + h) m
   @ corner_disparity lib rpc1 rpc2 H1 H2 A (x + w) (y + h) M"
  unfolding corner_disparity_def list.map
  by (simp only: alt_to_disp_Cons [of _ _ _ _ "_ # _"] append_assoc)

lemma array_min_lower: "array_min xs = Inr lo \<Longrightarrow> y \<in> set xs \<Longrightarrow> lo \<le> y"
  using foldl_min_lower by (cases xs) (auto simp: array_min_def)

lemma array_max_upper: "array_max xs = Inr hi \<Longrightarrow> y \<in> set xs \<Longrightarrow> y \<le> hi"
  using foldl_max_upper by (cases xs) (auto simp: array_max_def)

lemma array_min_max_nonempty:
  "xs \<noteq> [] \<Longrightarrow> \<exists>lo hi. array_min xs = Inr lo \<and> array_max xs = Inr hi \<and> lo \<le> hi"
proof (cases xs)
  case Nil
  assume "xs \<noteq> []"
  with Nil show ?thesis by simp
next
  case (Cons x r)
  have "foldl min x r \<le> x" "x \<le> foldl max x r"
    by (rule foldl_min_le, rule foldl_max_ge)
  then show ?thesis
    using Cons by (auto simp: array_min_def array_max_def)
qed

text \<open>
  Claim C7. For every region, every pair of altitudes (ordered or not), camera models,
  homographies and optional pointing matrix, \<^verbatim>\<open>altitude_range_to_disp_range\<close> returns a pair
  \<open>(d_min, d_max)\<close> with \<open>d_min \<le> d_max\<close>, and the disparity of each of the four corners of
  the region at each of the two altitudes lies between \<open>d_min\<close> and \<open>d_max\<close>.
\<close>

theorem altitude_range_to_disp_range_brackets:
  "\<exists>d_min d_max.
     altitude_range_to_disp_range lib m M rpc1 rpc2 x y w h H1 H2 A margin_top margin_bottom =
       Inr (d_min, d_max)
     \<and> d_min \<le> d_max
     \<and> (\<forall>cx \<in> {x, x + w}. \<forall>cy \<in> {y, y + h}. \<forall>alt \<in> {m, M}.
          \<exists>d. corner_disparity lib rpc1 rpc2 H1 H2 A cx cy alt = [d]
            \<and> d_min \<le> d \<and> d \<le> d_max)"
proof -
  let ?d = "alt_to_disp lib rpc1 rpc2
     (map of_int [x, x, x, x, x + w, x + w, x + w, x + w])
     (map of_int [y, y, y + h, y + h, y, y, y + h, y + h])
     [m, M, m, M, m, M, m, M] H1 H2 A"
  have single: "\<exists>d. corner_disparity lib rpc1 rpc2 H1 H2 A cx cy alt = [d]" for cx cy alt
    unfolding corner_disparity_def by (rule alt_to_disp_single)
  have ne: "?d \<noteq> []"
    unfolding corner_disparities using single [of x y m] by auto
  from array_min_max_nonempty [OF ne]
  obtain lo hi where lo: "array_min ?d = Inr lo" and hi: "array_max ?d = Inr hi"
    and le: "lo \<le> hi"
    by blast
  have res: "altitude_range_to_disp_range lib m M rpc1 rpc2 x y w h H1 H2 A
      margin_top margin_bottom = Inr (lo, hi)"
    unfolding altitude_range_to_disp_range_def Let_def by (simp only: lo hi ebind_Inr)
  have mem: "set (corner_disparity lib rpc1 rpc2 H1 H2 A cx cy alt) \<subseteq> set ?d"
    if "cx \<in> {x, x + w}" "cy \<in> {y, y + h}" "alt \<in> {m, M}" for cx cy alt
    unfolding corner_disparities using that by auto
  have br: "\<exists>d. corner_disparity lib rpc1 rpc2 H1 H2 A cx cy alt = [d] \<and> lo \<le> d \<and> d \<le> hi"
    if c: "cx \<in> {x, x + w}" "cy \<in> {y, y + h}" "alt \<in> {m, M}" for cx cy alt
  proof -
    obtain d where d: "corner_disparity lib rpc1 rpc2 H1 H2 A cx cy alt = [d]"
      using single by blast
    then have "d \<in> set ?d"
      using mem [OF c] by simp
    then show ?thesis
      using d array_min_lower [OF lo] array_max_upper [OF hi] by blast
  qed
  show ?thesis
    using res le br by blast
qed

lemma example_disp_range:
  "altitude_range_to_disp_range shifts 0 5 real_camera real_camera 0 0 10 10 0 0 None 0 0 =
     Inr (0, 5)"
  by (simp add: altitude_range_to_disp_range_def alt_to_disp_def find_corresponding_point_def
      vec3_def vstackT_def Let_def array_min_def array_max_def shifts_def real_camera_def)

lemma example_corner:
  "corner_disparity shifts real_camera real_camera 0 0 None 10 10 5 = [5]"
  by (simp add: corner_disparity_def alt_to_disp_def find_corresponding_point_def
      vec3_def vstackT_def Let_def shifts_def real_camera_def)

theorem altitude_range_to_disp_range_brackets_witness:
  "altitude_range_to_disp_range shifts 0 5 real_camera real_camera 0 0 10 10 0 0 None 0 0 =
     Inr (0, 5)
   \<and> (\<exists>d. corner_disparity shifts real_camera real_camera 0 0 None 10 10 5 = [d]
         \<and> 0 \<le> d \<and> d \<le> 5)"
proof -
  from altitude_range_to_disp_range_brackets [of shifts 0 5 real_camera real_camera 0 0 10 10
      0 0 None 0 0]
  obtain d_min d_max where r: "altitude_range_to_disp_range shifts 0 5 real_camera real_camera
        0 0 10 10 0 0 None 0 0 = Inr (d_min, d_max)"
    and b: "\<forall>cx \<in> {0, 0 + 10}. \<forall>cy \<in> {0, 0 + 10}. \<forall>alt \<in> {0, 5}.
          \<exists>d. corner_disparity shifts real_camera real_camera 0 0 None cx cy alt = [d]
            \<and> d_min \<le> d \<and> d \<le> d_max"
    by blast
  from r have v: "d_min = 0" "d_max = 5"
    by (simp_all add: example_disp_range)
  from b have "\<exists>d. corner_disparity shifts real_camera real_camera 0 0 None 10 10 5 = [d]
            \<and> d_min \<le> d \<and> d \<le> d_max"
    by simp
  then show ?thesis
    using r v by simp
qed

text \<open>
  Claim C10. \<^verbatim>\<open>altitude_range_to_disp_range\<close> takes \<open>margin_top\<close> and \<open>margin_bottom\<close> and
  never uses them: two calls that differ in the margins only return the same result.
\<close>

theorem altitude_range_to_disp_range_ignores_margins:
  "altitude_range_to_disp_range lib m M rpc1 rpc2 x y w h H1 H2 A margin_top margin_bottom =
   altitude_range_to_disp_range lib m M rpc1 rpc2 x y w h H1 H2 A margin_top' margin_bottom'"
  by (simp add: altitude_range_to_disp_range_def)

section \<open>Properties of the point mesh\<close>

lemma linspace_spacing:
  assumes "0 < n"
  shows "\<exists>xs. linspace lo hi n = Inr xs \<and> linear_spacing lo hi n xs"
proof (cases "n = 1")
  case True
  then show ?thesis
    by (simp add: linspace_def linear_spacing_def)
next
  case False
  with assms have n: "1 < n" by simp
  let ?step = "(hi - lo) / real_of_int (n - 1)"
  let ?ys = "map (\<lambda>i. lo + real i * ?step) [0..<nat n]"
  let ?xs = "?ys[nat n - 1 := hi]"
  have len: "length ?xs = nat n" by simp
  have lin: "linspace lo hi n = Inr ?xs"
    using n by (simp add: linspace_def Let_def)
  have lastv: "lo + real (nat n - 1) * ?step = hi"
  proof -
    have "real (nat n - 1) = real_of_int (n - 1)"
      using n by (simp add: of_nat_diff)
    moreover have "real_of_int (n - 1) \<noteq> 0"
      using n by simp
    ultimately show ?thesis by simp
  qed
  have nth: "?xs ! i = lo + real i * ?step" if "i < nat n" for i
  proof (cases "i = nat n - 1")
    case True
    then show ?thesis using that lastv by simp
  next
    case False
    then show ?thesis using that by simp
  qed
  have ne: "?xs \<noteq> []"
    using n len by auto
  have hd: "hd ?xs = lo"
    using nth [of 0] n ne by (simp add: hd_conv_nth)
  have last: "last ?xs = hi"
    using n ne by (simp add: last_conv_nth)
  show ?thesis
    unfolding lin linear_spacing_def using n len hd last nth by auto
qed


lemma zip_concat_map:
  "(\<And>x. length (f x) = length (g x)) \<Longrightarrow>
   zip (concat (map f xs)) (concat (map g xs)) = concat (map (\<lambda>x. zip (f x) (g x)) xs)"
  by (induction xs) simp_all

lemma length_broadcast3:
  "length (broadcast3 f cols rows alts) = length cols * length rows * length alts"
proof -
  have inner: "length (concat (map (\<lambda>r. map (\<lambda>c. f c r a) cols) rows)) =
      length cols * length rows" for a
    by (induction rows) simp_all
  show ?thesis
    unfolding broadcast3_def by (induction alts) (simp_all add: inner)
qed

lemma zip_broadcast3:
  "zip (broadcast3 f cols rows alts) (zip (broadcast3 g cols rows alts) (broadcast3 h cols rows alts)) =
   concat (map (\<lambda>a. concat (map (\<lambda>r. map (\<lambda>c. (f c r a, g c r a, h c r a)) cols) rows)) alts)"
proof -
  have l1: "length (concat (map (\<lambda>r. map (\<lambda>c. k c r a) cols) rows)) =
      length cols * length rows" for k :: "real \<Rightarrow> real \<Rightarrow> real \<Rightarrow> real" and a
    by (induction rows) simp_all
  have z1: "zip (map (\<lambda>c. g c r a) cols) (map (\<lambda>c. h c r a) cols) =
      map (\<lambda>c. (g c r a, h c r a)) cols" for r a
    by (induction cols) simp_all
  have z2: "zip (map (\<lambda>c. f c r a) cols) (map (\<lambda>c. (g c r a, h c r a)) cols) =
      map (\<lambda>c. (f c r a, g c r a, h c r a)) cols" for r a
    by (induction cols) simp_all
  have i1: "zip (concat (map (\<lambda>r. map (\<lambda>c. g c r a) cols) rows))
        (concat (map (\<lambda>r. map (\<lambda>c. h c r a) cols) rows)) =
      concat (map (\<lambda>r. map (\<lambda>c. (g c r a, h c r a)) cols) rows)" for a
    by (subst zip_concat_map) (simp_all add: z1)
  have i2: "zip (concat (map (\<lambda>r. map (\<lambda>c. f c r a) cols) rows))
        (concat (map (\<lambda>r. map (\<lambda>c. (g c r a, h c r a)) cols) rows)) =
      concat (map (\<lambda>r. map (\<lambda>c. (f c r a, g c r a, h c r a)) cols) rows)" for a
    by (subst zip_concat_map) (simp_all add: z2)
  have l2: "length (concat (map (\<lambda>r. map (\<lambda>c. (g c r a, h c r a)) cols) rows)) =
      length cols * length rows" for a
    by (induction rows) simp_all
  have o1: "zip (broadcast3 g cols rows alts) (broadcast3 h cols rows alts) =
      concat (map (\<lambda>a. concat (map (\<lambda>r. map (\<lambda>c. (g c r a, h c r a)) cols) rows)) alts)"
    unfolding broadcast3_def by (subst zip_concat_map) (simp_all add: l1 i1)
  show ?thesis
    unfolding o1 unfolding broadcast3_def
    by (subst zip_concat_map) (simp_all add: l1 l2 i2)
qed

lemma mset_concat_map_Cons:
  "mset (concat (map (\<lambda>x. f x # g x) xs)) = mset (map f xs) + mset (concat (map g xs))"
  by (induction xs) simp_all

lemma mset_concat_map_swap:
  "mset (concat (map (\<lambda>y. map (\<lambda>x. f x y) xs) ys)) =
   mset (concat (map (\<lambda>x. map (\<lambda>y. f x y) ys) xs))"
proof (induction ys)
  case Nil
  show ?case by (induction xs) simp_all
next
  case (Cons y ys)
  show ?case
    using Cons.IH by (simp add: mset_concat_map_Cons)
qed

lemma mset_concat_cong:
  "(\<And>x. x \<in> set xs \<Longrightarrow> mset (f x) = mset (g x)) \<Longrightarrow>
   mset (concat (map f xs)) = mset (concat (map g xs))"
  by (induction xs) simp_all

lemma product_as_concat:
  "concat (map (\<lambda>c. map (\<lambda>r. (c, r, a)) rows) cols) =
   map (\<lambda>p. (fst p, snd p, a)) (List.product cols rows)"
  by (induction cols) simp_all

lemma product_row:
  "concat (map ((\<lambda>p. map (\<lambda>a. (fst p, snd p, a)) alts) \<circ> Pair c) rows) =
   map (Pair c) (List.product rows alts)"
  by (induction rows) simp_all

lemma product_nested:
  "concat (map (\<lambda>p. map (\<lambda>a. (fst p, snd p, a)) alts) (List.product cols rows)) =
   List.product cols (List.product rows alts)"
  by (induction cols) (simp_all add: product_row)

lemma mset_mesh_product:
  "mset (concat (map (\<lambda>a. concat (map (\<lambda>r. map (\<lambda>c. (c, r, a)) cols) rows)) alts)) =
   mset (List.product cols (List.product rows alts))"
proof -
  have inner: "mset (concat (map (\<lambda>r. map (\<lambda>c. (c, r, a)) cols) rows)) =
      mset (map (\<lambda>p. (fst p, snd p, a)) (List.product cols rows))" for a
    unfolding product_as_concat [symmetric] by (rule mset_concat_map_swap)
  have "mset (concat (map (\<lambda>a. concat (map (\<lambda>r. map (\<lambda>c. (c, r, a)) cols) rows)) alts)) =
      mset (concat (map (\<lambda>a. map (\<lambda>p. (fst p, snd p, a)) (List.product cols rows)) alts))"
    by (rule mset_concat_cong) (rule inner)
  also have "\<dots> =
      mset (concat (map (\<lambda>p. map (\<lambda>a. (fst p, snd p, a)) alts) (List.product cols rows)))"
    by (rule mset_concat_map_swap)
  also have "\<dots> = mset (List.product cols (List.product rows alts))"
    by (simp only: product_nested)
  finally show ?thesis .
qed

text \<open>
  Claim C5. For three ranges with positive counts, \<^verbatim>\<open>generate_point_mesh\<close> returns three
  sequences of length \<open>nc * nr * na\<close>. Their tuples are the combinations of the three linear
  spacings, the columns running fastest and the altitudes slowest; as a multiset they are
  the Cartesian product of the spacings, so that each combination of a column sample, a row
  sample and an altitude sample appears exactly once. Each spacing has its count of values,
  starts at its minimum and ends at its maximum with equal steps, and is the minimum alone
  when the count is 1.
\<close>

theorem generate_point_mesh_product:
  assumes "0 < nc" "0 < nr" "0 < na"
  shows "\<exists>lc lr la cols rows alts.
      linspace col_min col_max nc = Inr lc \<and> linear_spacing col_min col_max nc lc
    \<and> linspace row_min row_max nr = Inr lr \<and> linear_spacing row_min row_max nr lr
    \<and> linspace alt_min alt_max na = Inr la \<and> linear_spacing alt_min alt_max na la
    \<and> generate_point_mesh (col_min, col_max, nc) (row_min, row_max, nr) (alt_min, alt_max, na) =
        Inr (cols, rows, alts)
    \<and> length cols = nat (nc * nr * na) \<and> length rows = nat (nc * nr * na)
    \<and> length alts = nat (nc * nr * na)
    \<and> zip cols (zip rows alts) = concat (map (\<lambda>a. concat (map (\<lambda>r. map (\<lambda>c. (c, r, a)) lc) lr)) la)
    \<and> mset (zip cols (zip rows alts)) = mset (List.product lc (List.product lr la))"
proof -
  obtain lc where lc: "linspace col_min col_max nc = Inr lc" "linear_spacing col_min col_max nc lc"
    using linspace_spacing [OF assms(1)] by blast
  obtain lr where lr: "linspace row_min row_max nr = Inr lr" "linear_spacing row_min row_max nr lr"
    using linspace_spacing [OF assms(2)] by blast
  obtain la where la: "linspace alt_min alt_max na = Inr la" "linear_spacing alt_min alt_max na la"
    using linspace_spacing [OF assms(3)] by blast
  let ?cols = "broadcast3 (\<lambda>c r a. c + 0 * r + 0 * a) lc lr la"
  let ?rows = "broadcast3 (\<lambda>c r a. 0 * c + r + 0 * a) lc lr la"
  let ?alts = "broadcast3 (\<lambda>c r a. 0 * c + 0 * r + a) lc lr la"
  have g: "generate_point_mesh (col_min, col_max, nc) (row_min, row_max, nr)
      (alt_min, alt_max, na) = Inr (?cols, ?rows, ?alts)"
    by (simp add: generate_point_mesh_def lc(1) lr(1) la(1))
  have len: "length lc = nat nc" "length lr = nat nr" "length la = nat na"
    using lc(2) lr(2) la(2) by (simp_all add: linear_spacing_def)
  have n: "nat nc * nat nr * nat na = nat (nc * nr * na)"
    using assms by (simp add: nat_mult_distrib)
  have l: "length ?cols = nat (nc * nr * na)" "length ?rows = nat (nc * nr * na)"
    "length ?alts = nat (nc * nr * na)"
    by (simp_all add: length_broadcast3 len n)
  have z: "zip ?cols (zip ?rows ?alts) =
      concat (map (\<lambda>a. concat (map (\<lambda>r. map (\<lambda>c. (c, r, a)) lc) lr)) la)"
    unfolding zip_broadcast3 by simp
  have m: "mset (zip ?cols (zip ?rows ?alts)) = mset (List.product lc (List.product lr la))"
    unfolding z by (rule mset_mesh_product)
  show ?thesis
    using lc lr la g l z m by blast
qed

theorem generate_point_mesh_product_witness:
  "generate_point_mesh (0, 1, 2) (5, 5, 1) (10, 20, 2) =
     Inr ([0, 1, 0, 1], [5, 5, 5, 5], [10, 10, 20, 20])
   \<and> mset (zip [0, 1, 0, 1] (zip [5, 5, 5, 5] [10, 10, 20, 20 :: real])) =
       mset (List.product [0, 1 :: real] (List.product [5 :: real] [10, 20]))"
proof -
  have l1: "linspace 0 1 2 = Inr [0, 1]"
    by (simp add: linspace_def Let_def upt_rec)
  have l2: "linspace 5 5 1 = Inr [5]"
    by (simp add: linspace_def)
  have l3: "linspace 10 20 2 = Inr [10, 20]"
    by (simp add: linspace_def Let_def upt_rec)
  have g: "generate_point_mesh (0, 1, 2) (5, 5, 1) (10, 20, 2) =
      Inr ([0, 1, 0, 1], [5, 5, 5, 5], [10, 10, 20, 20])"
    by (simp add: generate_point_mesh_def l1 l2 l3 broadcast3_def)
  from generate_point_mesh_product [of 2 1 2 0 1 5 5 10 20]
  obtain lc lr la cols rows alts where
    "linspace 0 1 2 = Inr lc" "linspace 5 5 1 = Inr lr" "linspace 10 20 2 = Inr la"
    "generate_point_mesh (0, 1, 2) (5, 5, 1) (10, 20, 2) = Inr (cols, rows, alts)"
    "mset (zip cols (zip rows alts)) = mset (List.product lc (List.product lr la))"
    by auto
  then show ?thesis
    using g by (simp add: l1 l2 l3)
qed

section \<open>Properties of the region of interest\<close>

lemma py_min_Cons: "py_min (x # xs) = Inr (foldl (\<lambda>m v. if flt v m then v else m) x xs)"
  by (simp add: py_min_def)

lemma py_max_Cons: "py_max (x # xs) = Inr (foldl (\<lambda>m v. if flt m v then v else m) x xs)"
  by (simp add: py_max_def)

lemma py_min_nonempty: "xs \<noteq> [] \<Longrightarrow> \<exists>v. py_min xs = Inr v"
  by (cases xs) (simp_all add: py_min_def)

lemma py_max_nonempty: "xs \<noteq> [] \<Longrightarrow> \<exists>v. py_max xs = Inr v"
  by (cases xs) (simp_all add: py_max_def)

text \<open>
  Claim C9, for a polygon with at least one vertex. The call returns a region, and the
  configuration after it is the configuration before it with two fields written:
  \<open>utm_zone\<close>, the zone derived from the argument or from the mean of the vertices, and
  \<open>utm_bbx\<close>, the minimum and maximum easting and the minimum and maximum northing of the
  polygon projected to that zone. No other field changes, the fields outside this module
  included; the region is returned and not stored.
\<close>

theorem roi_process_frame:
  assumes "ll_poly \<noteq> []"
  shows "\<exists>east_min east_max nort_min nort_max r.
      py_min (map fst (projected geo ll_poly zone_arg)) = Inr east_min
    \<and> py_max (map fst (projected geo ll_poly zone_arg)) = Inr east_max
    \<and> py_min (map snd (projected geo ll_poly zone_arg)) = Inr nort_min
    \<and> py_max (map snd (projected geo ll_poly zone_arg)) = Inr nort_max
    \<and> roi_process geo rpc ll_poly zone_arg cfg =
        (Inr r, cfg\<lparr>utm_zone := Some (derived_zone geo ll_poly zone_arg),
                    utm_bbx := Some (east_min, east_max, nort_min, nort_max)\<rparr>)
    \<and> exogenous_dem (snd (roi_process geo rpc ll_poly zone_arg cfg)) = exogenous_dem cfg
    \<and> exogenous_dem_geoid_mode (snd (roi_process geo rpc ll_poly zone_arg cfg)) =
        exogenous_dem_geoid_mode cfg
    \<and> rpc_alt_range_scale_factor (snd (roi_process geo rpc ll_poly zone_arg cfg)) =
        rpc_alt_range_scale_factor cfg
    \<and> cfg.more (snd (roi_process geo rpc ll_poly zone_arg cfg)) = cfg.more cfg"
proof -
  let ?p = "projected geo ll_poly zone_arg"
  have ne: "map fst ?p \<noteq> []" "map snd ?p \<noteq> []"
    using assms by (simp_all add: projected_def)
  obtain e1 e2 n1 n2 where m: "py_min (map fst ?p) = Inr e1" "py_max (map fst ?p) = Inr e2"
    "py_min (map snd ?p) = Inr n1" "py_max (map snd ?p) = Inr n2"
    using py_min_nonempty [OF ne(1)] py_max_nonempty [OF ne(1)]
      py_min_nonempty [OF ne(2)] py_max_nonempty [OF ne(2)] by blast
  have r: "\<exists>r. roi_process geo rpc ll_poly zone_arg cfg =
      (Inr r, cfg\<lparr>utm_zone := Some (derived_zone geo ll_poly zone_arg),
                  utm_bbx := Some (e1, e2, n1, n2)\<rparr>)"
    using m unfolding roi_process_def projected_def derived_zone_def Let_def
    by (simp split: prod.splits)
  then show ?thesis
    using m by auto
qed


lemma example_projected:
  "projected example_geography [(Fin 1, Fin 2), (Fin 3, Fin 4)] None =
     [(Fin 1000, Fin 2000), (Fin 3000, Fin 4000)]"
  by (simp add: projected_def derived_zone_def example_geography_def)

lemma example_zone:
  "derived_zone example_geography [(Fin 1, Fin 2), (Fin 3, Fin 4)] None = ''31N''"
  by (simp add: derived_zone_def example_geography_def)

theorem roi_process_frame_witness:
  "snd (roi_process example_geography linear_camera [(Fin 1, Fin 2), (Fin 3, Fin 4)] None
      (example_cfg None)) =
   (example_cfg None)\<lparr>utm_zone := Some ''31N'',
      utm_bbx := Some (Fin 1000, Fin 3000, Fin 2000, Fin 4000)\<rparr>"
  using roi_process_frame [of "[(Fin 1, Fin 2), (Fin 3, Fin 4)]" example_geography None
      linear_camera "example_cfg None"]
  by (auto simp: example_projected example_zone py_min_Cons py_max_Cons)

text \<open>
  Claim C9 as it is written is about every call. On a polygon without vertices the zone is
  written, and then \<^verbatim>\<open>min(easting)\<close> raises \<^verbatim>\<open>ValueError\<close>: the call returns nothing and
  \<open>utm_bbx\<close> keeps its old value.
\<close>

theorem roi_process_empty_polygon:
  "roi_process example_geography linear_camera [] (Some ''31N'') (example_cfg None) =
     (Inl ValueError, (example_cfg None)\<lparr>utm_zone := Some ''31N''\<rparr>)
   \<and> utm_bbx ((example_cfg None)\<lparr>utm_zone := Some ''31N''\<rparr>) = None"
  by (simp add: roi_process_def py_min_def Let_def example_cfg_def)

section \<open>Properties of the normalisations\<close>





lemma fsub_Fin [simp]: "fsub (Fin a) (Fin b) = Fin (a - b)"
  by (simp add: fsub_def)























section \<open>Properties of the camera matrix\<close>












end
